theory Spec2Isabelle
  imports Complex_Main "HOL-Library.AList"
begin

section \<open>Conventions of the embedding\<close>

text \<open>
  The program is the Python package around \<^verbatim>\<open>calculator.compute_support\<close>.
  Python \<^verbatim>\<open>int\<close> is embedded as \<^typ>\<open>int\<close>, \<^verbatim>\<open>datetime.date\<close> as its proleptic Gregorian
  ordinal (\<^verbatim>\<open>date.toordinal()\<close>), dictionaries as association lists in insertion
  order, and exceptions as the left summand of a sum type.

  A Python \<^verbatim>\<open>float\<close> is embedded as the \<^typ>\<open>real\<close> number it denotes. In
  \<^verbatim>\<open>wages.py\<close> every result passes through \<^verbatim>\<open>round(x, 2)\<close>, whose value depends on
  the double that the arithmetic produced, so there each literal and each operation is
  rounded to the nearest double (53 significant bits, ties to even; the exponent range is
  not modelled, the wages being far from it). In the other modules the arithmetic on floats
  is exact arithmetic on reals.
\<close>

subsection \<open>Exceptions\<close>

datatype value_error =
    HesapBeforeOlay            \<comment> \<open>message of the 1st check of \<^verbatim>\<open>_validate_input\<close>\<close>
  | BirthNotBeforeOlay         \<comment> \<open>2nd check\<close>
  | FaultRateOutOfRange        \<comment> \<open>3rd check\<close>
  | NegativeReportRate         \<comment> \<open>4th check\<close>
  | NegativeTechnicalInterest  \<comment> \<open>5th check\<close>
  | YearOutOfRange             \<comment> \<open>\<^verbatim>\<open>date(...)\<close>: year not in 1..9999\<close>
  | MonthOutOfRange            \<comment> \<open>\<^verbatim>\<open>date(...)\<close>: month not in 1..12\<close>
  | DayOutOfRange              \<comment> \<open>\<^verbatim>\<open>date(...)\<close>: day is out of range for month\<close>

datatype error = ValueError value_error | OverflowError

definition ebind :: "error + 'a \<Rightarrow> ('a \<Rightarrow> error + 'b) \<Rightarrow> error + 'b" where
  "ebind m f = (case m of Inl e \<Rightarrow> Inl e | Inr x \<Rightarrow> f x)"

fun emap :: "('a \<Rightarrow> error + 'b) \<Rightarrow> 'a list \<Rightarrow> error + 'b list" where
  "emap f [] = Inr []"
| "emap f (x # xs) = ebind (f x) (\<lambda>y. ebind (emap f xs) (\<lambda>ys. Inr (y # ys)))"

fun efold :: "('a \<Rightarrow> 's \<Rightarrow> error + 's) \<Rightarrow> 'a list \<Rightarrow> 's \<Rightarrow> error + 's" where
  "efold f [] s = Inr s"
| "efold f (x # xs) s = ebind (f x s) (efold f xs)"

subsection \<open>Numbers\<close>

definition py_int :: "real \<Rightarrow> int" where
  \<comment> \<open>\<^verbatim>\<open>int(x)\<close> on a float: truncation towards zero\<close>
  "py_int x = (if 0 \<le> x then \<lfloor>x\<rfloor> else \<lceil>x\<rceil>)"

definition py_round :: "real \<Rightarrow> int" where
  \<comment> \<open>\<^verbatim>\<open>round(x)\<close>: nearest integer, ties to the even one\<close>
  "py_round x =
     (let f = \<lfloor>x\<rfloor>; r = x - of_int f
      in if r < 1 / 2 then f else if 1 / 2 < r then f + 1 else if even f then f else f + 1)"

definition fl :: "real \<Rightarrow> real" where
  \<comment> \<open>the double nearest to a real number, ties to the even significand\<close>
  "fl x =
     (if x = 0 then 0
      else let e = \<lfloor>log 2 \<bar>x\<bar>\<rfloor> - 52
           in of_int (py_round (x / 2 powr of_int e)) * 2 powr of_int e)"

definition fadd :: "real \<Rightarrow> real \<Rightarrow> real" where
  \<comment> \<open>\<^verbatim>\<open>a + b\<close> on doubles\<close>
  "fadd a b = fl (a + b)"

definition fsub :: "real \<Rightarrow> real \<Rightarrow> real" where
  \<comment> \<open>\<^verbatim>\<open>a - b\<close> on doubles\<close>
  "fsub a b = fl (a - b)"

definition fmul :: "real \<Rightarrow> real \<Rightarrow> real" where
  \<comment> \<open>\<^verbatim>\<open>a * b\<close> on doubles\<close>
  "fmul a b = fl (a * b)"

definition fdiv :: "real \<Rightarrow> real \<Rightarrow> real" where
  \<comment> \<open>\<^verbatim>\<open>a / b\<close> on doubles\<close>
  "fdiv a b = fl (a / b)"

definition round2 :: "real \<Rightarrow> real" where
  \<comment> \<open>\<^verbatim>\<open>round(x, 2)\<close> on a double: its exact value is rounded to two decimals, ties to
      even, and the double nearest to that decimal is returned\<close>
  "round2 x = fl (of_int (py_round (x * 100)) / 100)"

subsection \<open>Dictionaries\<close>

definition dict_get :: "('k \<times> 'v) list \<Rightarrow> 'k \<Rightarrow> 'v \<Rightarrow> 'v" where
  \<comment> \<open>\<^verbatim>\<open>d.get(k, default)\<close>\<close>
  "dict_get d k dflt = (case map_of d k of None \<Rightarrow> dflt | Some v \<Rightarrow> v)"

definition dict_values_sum :: "('k \<times> real) list \<Rightarrow> real" where
  \<comment> \<open>\<^verbatim>\<open>sum(d.values())\<close>\<close>
  "dict_values_sum d = sum_list (map snd d)"

subsection \<open>Calendar dates\<close>

type_synonym date = int

definition is_leap :: "int \<Rightarrow> bool" where
  "is_leap y = (y mod 4 = 0 \<and> (y mod 100 \<noteq> 0 \<or> y mod 400 = 0))"

definition days_before_year :: "int \<Rightarrow> int" where
  "days_before_year y = (y - 1) * 365 + (y - 1) div 4 - (y - 1) div 100 + (y - 1) div 400"

definition days_in_month :: "int \<Rightarrow> int \<Rightarrow> int" where
  "days_in_month y m =
     (if m = 2 then (if is_leap y then 29 else 28)
      else if m = 4 \<or> m = 6 \<or> m = 9 \<or> m = 11 then 30 else 31)"

definition days_before_month :: "int \<Rightarrow> int \<Rightarrow> int" where
  "days_before_month y m =
     [0, 31, 59, 90, 120, 151, 181, 212, 243, 273, 304, 334] ! nat (m - 1)
       + (if 2 < m \<and> is_leap y then 1 else 0)"

definition ymd2ord :: "int \<Rightarrow> int \<Rightarrow> int \<Rightarrow> date" where
  "ymd2ord y m d = days_before_year y + days_before_month y m + d"

definition MINORD :: date where "MINORD = 1"
definition MAXORD :: date where "MAXORD = 3652059"

definition mk_date :: "int \<Rightarrow> int \<Rightarrow> int \<Rightarrow> error + date" where
  \<comment> \<open>the constructor \<^verbatim>\<open>date(y, m, d)\<close>, which raises ValueError on an impossible date\<close>
  "mk_date y m d =
     (if y < 1 \<or> 9999 < y then Inl (ValueError YearOutOfRange)
      else if m < 1 \<or> 12 < m then Inl (ValueError MonthOutOfRange)
      else if d < 1 \<or> days_in_month y m < d then Inl (ValueError DayOutOfRange)
      else Inr (ymd2ord y m d))"

definition year_of :: "date \<Rightarrow> int" where
  \<comment> \<open>\<^verbatim>\<open>d.year\<close>, as \<^verbatim>\<open>datetime._ord2ymd\<close> computes it\<close>
  "year_of d =
    (let n = d - 1;
         n400 = n div 146097; n = n mod 146097;
         n100 = n div 36524; n = n mod 36524;
         n4 = n div 1461; n = n mod 1461;
         n1 = n div 365;
         y = n400 * 400 + 1 + n100 * 100 + n4 * 4 + n1
     in if n1 = 4 \<or> n100 = 4 then y - 1 else y)"

definition month_of :: "date \<Rightarrow> int" where
  \<comment> \<open>\<^verbatim>\<open>d.month\<close>: the first month whose last day is not before the day of the year\<close>
  "month_of d =
    (let y = year_of d; n = d - days_before_year y
     in case find (\<lambda>m. n \<le> days_before_month y m + days_in_month y m)
               [1, 2, 3, 4, 5, 6, 7, 8, 9, 10, 11, 12] of
          Some m \<Rightarrow> m | None \<Rightarrow> 12)"

definition day_of :: "date \<Rightarrow> int" where
  \<comment> \<open>\<^verbatim>\<open>d.day\<close>\<close>
  "day_of d = (let y = year_of d in d - days_before_year y - days_before_month y (month_of d))"

definition date_add_days :: "date \<Rightarrow> int \<Rightarrow> error + date" where
  \<comment> \<open>\<^verbatim>\<open>d + timedelta(days=n)\<close>, OverflowError outside 0001-01-01 .. 9999-12-31\<close>
  "date_add_days d n = (if d + n < MINORD \<or> MAXORD < d + n then Inl OverflowError else Inr (d + n))"

definition INF_DATE :: date where
  "INF_DATE = ymd2ord 9999 12 31"

section \<open>models.py\<close>

datatype Gender = MALE | FEMALE
datatype LifeTableType = TRH2010 | PMF1931
datatype IncomeMode = ASGARI | MANUAL
datatype PassiveIncomeType = PASSIVE_MIN_WAGE | PASSIVE_RATIO
datatype SGKDeductionType = NONE | HALF | FULL
datatype ProfileType = YARGITAY | EXPERT
datatype DependentType = SPOUSE | CHILD | MOTHER | FATHER | OTHER

record Person =
  name :: string
  birth :: date
  gender :: Gender

record Dependent =
  person :: Person
  dep_type :: DependentType
  is_student :: bool
  reduced_share :: bool
  apply_marriage_discount :: bool
  has_income :: bool
  custom_support_years :: "real option"
  custom_exit_date :: "date option"

text \<open>The period label of a row is a string in the source; only its three values matter.\<close>

datatype PeriodType = Gecmis | GelecekAktif | GelecekPasif

record YearRow =
  year :: int
  age_supporter :: int
  period_type :: PeriodType
  gross_support :: real
  present_value :: real
  shares :: "(string \<times> real) list"

record CalculationInput =
  olay_tarihi :: date
  hesap_tarihi :: date
  destek :: Person
  income_mode :: IncomeMode
  monthly_income :: real
  regular_extra_income :: real
  life_table :: LifeTableType
  active_start_age :: int
  active_end_age :: int
  passive_income_type :: PassiveIncomeType
  passive_ratio :: real
  child_support_age_male :: int
  child_support_age_female_non_student :: int
  child_support_age_student :: int
  report_discount_rate :: real
  use_progresif :: bool
  technical_interest :: real
  separate_parent_pool :: bool
  parent_share_cap_25_enabled :: bool
  sgk_monthly_income :: real
  sgk_deduction_type :: SGKDeductionType
  sgk_psd_factor :: real
  fault_rate :: real
  apply_ayim :: bool
  training_enabled :: bool
  training_rate :: real
  training_base_monthly :: real
  mother_working :: bool
  father_working :: bool
  military_enabled :: bool
  military_start_age :: int
  military_duration_months :: int
  assume_marriage_if_single :: bool
  assumed_marriage_age :: int
  assumed_child1_after_years :: int
  assumed_child2_after_years :: int
  assumed_spouse_has_income :: bool
  agi_use_family_status :: bool
  profile :: ProfileType
  dependents :: "Dependent list"

record CalculationResult =
  rows :: "YearRow list"
  total_support :: real
  total_by_person :: "(string \<times> real) list"
  sgk_psd_deduction :: real
  total_after_sgk :: real
  total_after_fault :: real
  training_total :: real
  supporter_start :: date
  supporter_end :: date
  dependent_intervals :: "(string \<times> (date \<times> date) option) list"
  virtual_intervals :: "(string \<times> date \<times> date) list"

section \<open>wages.py\<close>

record WagePeriod =
  wp_start :: date
  wp_end :: date
  gross_monthly :: real

definition MIN_WAGE_PERIODS :: "WagePeriod list" where
  "MIN_WAGE_PERIODS =
    [\<lparr>wp_start = ymd2ord 2016 1 1, wp_end = ymd2ord 2017 1 1, gross_monthly = fl 1647.00\<rparr>,
     \<lparr>wp_start = ymd2ord 2017 1 1, wp_end = ymd2ord 2018 1 1, gross_monthly = fl 1777.50\<rparr>,
     \<lparr>wp_start = ymd2ord 2018 1 1, wp_end = ymd2ord 2019 1 1, gross_monthly = fl 2029.50\<rparr>,
     \<lparr>wp_start = ymd2ord 2019 1 1, wp_end = ymd2ord 2020 1 1, gross_monthly = fl 2558.40\<rparr>,
     \<lparr>wp_start = ymd2ord 2020 1 1, wp_end = ymd2ord 2021 1 1, gross_monthly = fl 2943.00\<rparr>,
     \<lparr>wp_start = ymd2ord 2021 1 1, wp_end = ymd2ord 2022 1 1, gross_monthly = fl 3577.50\<rparr>,
     \<lparr>wp_start = ymd2ord 2022 1 1, wp_end = ymd2ord 2022 7 1, gross_monthly = fl 5004.00\<rparr>,
     \<lparr>wp_start = ymd2ord 2022 7 1, wp_end = ymd2ord 2023 1 1, gross_monthly = fl 6471.00\<rparr>,
     \<lparr>wp_start = ymd2ord 2023 1 1, wp_end = ymd2ord 2023 7 1, gross_monthly = fl 10008.00\<rparr>,
     \<lparr>wp_start = ymd2ord 2023 7 1, wp_end = ymd2ord 2024 1 1, gross_monthly = fl 13414.50\<rparr>,
     \<lparr>wp_start = ymd2ord 2024 1 1, wp_end = ymd2ord 2025 1 1, gross_monthly = fl 20002.50\<rparr>,
     \<lparr>wp_start = ymd2ord 2025 1 1, wp_end = ymd2ord 2100 1 1, gross_monthly = fl 26005.50\<rparr>]"

definition get_min_wage_gross :: "date \<Rightarrow> real" where
  "get_min_wage_gross dt =
     (case find (\<lambda>p. wp_start p \<le> dt \<and> dt < wp_end p) MIN_WAGE_PERIODS of
        Some p \<Rightarrow> gross_monthly p
      | None \<Rightarrow> gross_monthly (last MIN_WAGE_PERIODS))"

definition agi_oran :: "bool \<Rightarrow> bool \<Rightarrow> int \<Rightarrow> real" where
  \<comment> \<open>the variable \<^verbatim>\<open>oran\<close> of \<^verbatim>\<open>compute_agi\<close> after the chain of increments\<close>
  "agi_oran married spouse_has_income child_count =
     (let oran = fl 0.50;
          oran = (if married \<and> \<not> spouse_has_income then fadd oran (fl 0.10) else oran);
          oran = (if 1 \<le> child_count then fadd oran (fl 0.075) else oran);
          oran = (if 2 \<le> child_count then fadd oran (fl 0.075) else oran);
          oran = (if 3 \<le> child_count then fadd oran (fl 0.10) else oran);
          oran = (if 4 \<le> child_count then fadd oran (fl 0.05) else oran);
          oran = (if 5 \<le> child_count then fadd oran (fl 0.05) else oran)
      in oran)"

definition compute_agi :: "date \<Rightarrow> bool \<Rightarrow> bool \<Rightarrow> int \<Rightarrow> real" where
  "compute_agi dt married spouse_has_income child_count =
     (let y = year_of dt
      in if y < 2008 \<or> 2022 \<le> y then 0
         else
           let brut = get_min_wage_gross dt;
               oran = agi_oran married spouse_has_income child_count;
               agi_yillik = fmul (fmul brut oran) (fl 0.15);
               agi_aylik = fdiv agi_yillik 12
           in round2 agi_aylik)"

definition get_min_wage_net :: "date \<Rightarrow> bool \<Rightarrow> bool \<Rightarrow> bool \<Rightarrow> int \<Rightarrow> real" where
  "get_min_wage_net dt use_agi married spouse_has_income child_count =
     (let y = year_of dt;
          brut = get_min_wage_gross dt;
          sgk_emp = fmul brut (fl 0.14);
          ui_emp = fmul brut (fl 0.01);
          vergi_matrah = fsub (fsub brut sgk_emp) ui_emp
      in if 2022 \<le> y then round2 (fsub (fsub brut sgk_emp) ui_emp)
         else
           let gv_rate = fl 0.15;
               dv_rate = fl 0.00759;
               gelir_vergisi = fmul vergi_matrah gv_rate;
               damga = fmul brut dv_rate;
               agi = (if use_agi then compute_agi dt married spouse_has_income child_count else 0);
               odenen_gv = max 0 (fsub gelir_vergisi agi)
           in round2 (fsub (fsub (fsub (fsub brut sgk_emp) ui_emp) odenen_gv) damga))"

text \<open>
  The conditional add-ons of the family allowance as the specification lists them: the
  spouse's 10 percent, then one tier per child up to the fifth.
\<close>

definition agi_child_tier :: "nat \<Rightarrow> real" where
  "agi_child_tier i =
     (if i = 1 \<or> i = 2 then fl 0.075 else if i = 3 then fl 0.10
      else if i = 4 \<or> i = 5 then fl 0.05 else 0)"

definition agi_addon_list :: "bool \<Rightarrow> bool \<Rightarrow> int \<Rightarrow> real list" where
  "agi_addon_list married spouse_has_income child_count =
     (if married \<and> \<not> spouse_has_income then [fl 0.10] else [])
       @ map agi_child_tier [1 ..< Suc (nat (min child_count 5))]"

definition spec_agi :: "date \<Rightarrow> bool \<Rightarrow> bool \<Rightarrow> int \<Rightarrow> real" where
  \<comment> \<open>the sum of the add-ons, times 15 percent of the gross wage, divided by 12\<close>
  "spec_agi dt married spouse_has_income child_count =
     (if 2008 \<le> year_of dt \<and> year_of dt < 2022
      then sum_list (agi_addon_list married spouse_has_income child_count)
             * (0.15 * get_min_wage_gross dt) / 12
      else 0)"

section \<open>life_tables.py\<close>

text \<open>
  A life table is the dictionary \<^verbatim>\<open>LifeTable.ex\<close>, from (gender, age) to the remaining
  years. The CSV files it is read from are not part of the sources: they are the parameter
  \<open>csv\<close>, which gives for each table type the dictionary built from the file, or
  \<open>None\<close> when the file does not exist. The process-wide cache only avoids reading the
  file again and is left out.
\<close>

type_synonym LifeTable = "((Gender \<times> int) \<times> real) list"

definition fallback_table :: "LifeTableType \<Rightarrow> LifeTable" where
  "fallback_table table_type =
     concat (map (\<lambda>age.
       let base = (if table_type = TRH2010
                   then (if age = 0 then 78 else max 0 (78 - of_int age))
                   else (if age = 0 then 70 else max 0 (70 - of_int age)))
       in [((MALE, age), base), ((FEMALE, age), base + 3)]) (map int [0 ..< 111]))"

definition load_table :: "(LifeTableType \<Rightarrow> LifeTable option) \<Rightarrow> LifeTableType \<Rightarrow> LifeTable" where
  "load_table csv table_type =
     (case csv table_type of Some ex_map \<Rightarrow> ex_map | None \<Rightarrow> fallback_table table_type)"

fun min_by :: "('a \<Rightarrow> int) \<Rightarrow> 'a \<Rightarrow> 'a list \<Rightarrow> 'a" where
  \<comment> \<open>\<^verbatim>\<open>min(xs, key=...)\<close>: the first element with the least key\<close>
  "min_by key best [] = best"
| "min_by key best (x # xs) = min_by key (if key x < key best then x else best) xs"

definition get_life_expectancy ::
  "(LifeTableType \<Rightarrow> LifeTable option) \<Rightarrow> int \<Rightarrow> LifeTableType \<Rightarrow> Gender \<Rightarrow> real" where
  "get_life_expectancy csv age0 table_type g =
     (let age = (if age0 < 0 then 0 else age0);
          age = (if 110 < age then 110 else age);
          ex = load_table csv table_type
      in case map_of ex (g, age) of
           Some v \<Rightarrow> v
         | None \<Rightarrow>
             (case map (\<lambda>ga. snd (fst ga)) (filter (\<lambda>ga. fst (fst ga) = g) ex) of
                [] \<Rightarrow> 0
              | a # ages \<Rightarrow> dict_get ex (g, min_by (\<lambda>a. \<bar>a - age\<bar>) a ages) 0))"

section \<open>sharing.py\<close>

definition destek_key :: string where
  "destek_key = ''destek''"

definition base_shares :: "CalculationInput \<Rightarrow> (string \<times> real) list" where
  "base_shares ci =
     fold (\<lambda>d sh.
             AList.update (name (person d))
               (if dep_type d = SPOUSE then 2
                else if dep_type d = CHILD then 1
                else if dep_type d = MOTHER \<or> dep_type d = FATHER
                     then (if reduced_share d then 0.5 else 1)
                else 1) sh)
          (dependents ci) [(destek_key, 2)]"

definition parent_names :: "CalculationInput \<Rightarrow> string list" where
  "parent_names ci =
     map (\<lambda>d. name (person d))
       (filter (\<lambda>d. dep_type d = MOTHER \<or> dep_type d = FATHER) (dependents ci))"

definition normalize_shares :: "(string \<times> real) list \<Rightarrow> (string \<times> real) list" where
  "normalize_shares sh =
     (let total = dict_values_sum sh
      in if total \<le> 0 then map (\<lambda>kv. (fst kv, 0)) sh
         else map (\<lambda>kv. (fst kv, snd kv / total)) sh)"

section \<open>sgk.py\<close>

definition compute_sgk_psd :: "CalculationInput \<Rightarrow> real" where
  "compute_sgk_psd ci =
     (if sgk_monthly_income ci \<le> 0 then 0
      else sgk_monthly_income ci * 12 * sgk_psd_factor ci)"

section \<open>ayim.py\<close>

definition ayim_base_rate :: "int \<Rightarrow> Gender \<Rightarrow> real" where
  "ayim_base_rate age g =
     (if g = FEMALE then
        (if 17 \<le> age \<and> age \<le> 20 then 52
         else if 21 \<le> age \<and> age \<le> 25 then 40
         else if 26 \<le> age \<and> age \<le> 30 then 27
         else if 31 \<le> age \<and> age \<le> 35 then 17
         else if 36 \<le> age \<and> age \<le> 40 then 9
         else if 41 \<le> age \<and> age \<le> 50 then 2
         else if 51 \<le> age \<and> age \<le> 55 then 1
         else 0)
      else
        (if 17 \<le> age \<and> age \<le> 20 then 90
         else if 21 \<le> age \<and> age \<le> 25 then 70
         else if 26 \<le> age \<and> age \<le> 30 then 48
         else if 31 \<le> age \<and> age \<le> 35 then 30
         else if 36 \<le> age \<and> age \<le> 40 then 15
         else if 41 \<le> age \<and> age \<le> 50 then 4
         else if 51 \<le> age \<and> age \<le> 55 then 2
         else 0))"

definition get_marriage_discount_factor :: "int \<Rightarrow> Gender \<Rightarrow> int \<Rightarrow> real" where
  "get_marriage_discount_factor age g child_under18_count =
     (let base = ayim_base_rate age g;
          adj = base - 5 * of_int child_under18_count;
          adj = (if adj < 0 then 0 else adj)
      in 1 - adj / 100)"

section \<open>income.py\<close>

definition family_status_for_agi :: "CalculationInput \<Rightarrow> date \<Rightarrow> bool \<times> bool \<times> int" where
  "family_status_for_agi ci dt =
     (let spouse_exists = list_ex (\<lambda>d. dep_type d = SPOUSE) (dependents ci);
          spouse_has_income =
            fold (\<lambda>d b. if dep_type d = SPOUSE then has_income d else b) (dependents ci) False;
          age = real_of_int (dt - birth (destek ci)) / 365.25;
          marry = (\<not> spouse_exists \<and> assume_marriage_if_single ci
                   \<and> of_int (assumed_marriage_age ci) \<le> age);
          spouse_has_income = (if marry then assumed_spouse_has_income ci else spouse_has_income);
          spouse_exists = (if marry then True else spouse_exists);
          child_count =
            int (length (filter (\<lambda>d. dep_type d = CHILD
                                   \<and> real_of_int (dt - birth (person d)) / 365.25 < 18)
                           (dependents ci)));
          child1_age = age - of_int (assumed_marriage_age ci + assumed_child1_after_years ci);
          child2_age = age - of_int (assumed_marriage_age ci + assumed_child2_after_years ci);
          child_count =
            (if assume_marriage_if_single ci
             then child_count + (if 0 \<le> child1_age \<and> child1_age < 18 then 1 else 0)
                              + (if 0 \<le> child2_age \<and> child2_age < 18 then 1 else 0)
             else child_count)
      in (spouse_exists, spouse_has_income, child_count))"

definition calculate_monthly_income :: "CalculationInput \<Rightarrow> date \<Rightarrow> real" where
  "calculate_monthly_income ci dt =
     (if income_mode ci = ASGARI then
        (case family_status_for_agi ci dt of
           (spouse_exists, spouse_has_income, child_count) \<Rightarrow>
             get_min_wage_net dt (agi_use_family_status ci) spouse_exists spouse_has_income child_count)
      else monthly_income ci + regular_extra_income ci)"

section \<open>calculator.py\<close>

definition validate_input :: "CalculationInput \<Rightarrow> error + unit" where
  "validate_input ci =
     (if hesap_tarihi ci < olay_tarihi ci then Inl (ValueError HesapBeforeOlay)
      else if olay_tarihi ci \<le> birth (destek ci) then Inl (ValueError BirthNotBeforeOlay)
      else if \<not> (0 \<le> fault_rate ci \<and> fault_rate ci \<le> 100) then Inl (ValueError FaultRateOutOfRange)
      else if report_discount_rate ci < 0 then Inl (ValueError NegativeReportRate)
      else if technical_interest ci < 0 then Inl (ValueError NegativeTechnicalInterest)
      else Inr ())"

definition age_of :: "date \<Rightarrow> date \<Rightarrow> real" where
  "age_of b ref_date = (let days = ref_date - b in max 0 (real_of_int days / 365.25))"

definition int_age_on :: "date \<Rightarrow> date \<Rightarrow> int" where
  "int_age_on b ref =
     (let age = year_of ref - year_of b
      in if month_of ref < month_of b \<or> (month_of ref = month_of b \<and> day_of ref < day_of b)
         then age - 1 else age)"

definition add_years :: "date \<Rightarrow> real \<Rightarrow> error + date" where
  "add_years d years =
     (let int_years = py_int years;
          frac_years = years - of_int int_years;
          d2 = (case mk_date (year_of d + int_years) (month_of d) (day_of d) of
                  Inr r \<Rightarrow> Inr r
                | Inl (ValueError v) \<Rightarrow> mk_date (year_of d + int_years) 2 28
                | Inl OverflowError \<Rightarrow> Inl OverflowError);
          extra_days = py_round (frac_years * 365.25)
      in ebind d2 (\<lambda>d2. date_add_days d2 extra_days))"

definition expected_death_date ::
  "(LifeTableType \<Rightarrow> LifeTable option) \<Rightarrow> date \<Rightarrow> Gender \<Rightarrow> CalculationInput \<Rightarrow> error + date" where
  "expected_death_date csv b g ci =
     (let age_at_hesap = age_of b (hesap_tarihi ci);
          le_years = get_life_expectancy csv (py_int age_at_hesap) (life_table ci) g
      in add_years (hesap_tarihi ci) le_years)"

definition overlap_days :: "date \<Rightarrow> date \<Rightarrow> date \<Rightarrow> date \<Rightarrow> int" where
  "overlap_days start1 end1 start2 end2 =
     (let s = max start1 start2; e = min end1 end2
      in if e \<le> s then 0 else e - s)"

definition yearly_support :: "CalculationInput \<Rightarrow> int \<Rightarrow> error + real" where
  "yearly_support ci yr =
     ebind (mk_date yr (month_of (olay_tarihi ci)) (day_of (olay_tarihi ci))) (\<lambda>dt.
       let age = age_of (birth (destek ci)) dt
       in if military_enabled ci \<and> gender (destek ci) = MALE
              \<and> of_int (military_start_age ci) \<le> age
              \<and> age < of_int (military_start_age ci) + of_int (military_duration_months ci) / 12
          then Inr 0
          else if age < of_int (active_start_age ci) then Inr 0
          else if age \<le> of_int (active_end_age ci)
          then Inr (calculate_monthly_income ci dt * 12)
          else if passive_income_type ci = PASSIVE_MIN_WAGE
          then Inr (get_min_wage_net dt False False False 0 * 12)
          else Inr (calculate_monthly_income ci dt * 12 * passive_ratio ci))"

definition period_type_of :: "int \<Rightarrow> CalculationInput \<Rightarrow> error + PeriodType" where
  \<comment> \<open>\<^verbatim>\<open>_period_type\<close>\<close>
  "period_type_of yr ci =
     ebind (mk_date yr (month_of (olay_tarihi ci)) (day_of (olay_tarihi ci))) (\<lambda>ref_date.
       if ref_date < hesap_tarihi ci then Inr Gecmis
       else if age_of (birth (destek ci)) ref_date \<le> of_int (active_end_age ci) then Inr GelecekAktif
       else Inr GelecekPasif)"

subsection \<open>compute_support: eligibility intervals\<close>

definition child_support_years :: "CalculationInput \<Rightarrow> Dependent \<Rightarrow> real" where
  \<comment> \<open>the variable \<^verbatim>\<open>years\<close> of the loop over the dependents\<close>
  "child_support_years ci d =
     (case custom_support_years d of
        Some y \<Rightarrow> y
      | None \<Rightarrow>
          if is_student d then of_int (child_support_age_student ci)
          else if gender (person d) = FEMALE then of_int (child_support_age_female_non_student ci)
          else of_int (child_support_age_male ci))"

definition dep_interval ::
  "(LifeTableType \<Rightarrow> LifeTable option) \<Rightarrow> CalculationInput \<Rightarrow> date \<Rightarrow> Dependent
     \<Rightarrow> error + (date \<times> date) option" where
  \<comment> \<open>the body of the loop over \<^verbatim>\<open>ci.dependents\<close>: the value stored in \<^verbatim>\<open>dep_intervals[name]\<close>\<close>
  "dep_interval csv ci supp_end d =
     ebind (expected_death_date csv (birth (person d)) (gender (person d)) ci) (\<lambda>death_date.
       let start_date = max (olay_tarihi ci) (birth (person d))
       in ebind (if dep_type d = CHILD
                 then add_years (birth (person d)) (child_support_years ci d)
                 else Inr INF_DATE) (\<lambda>child_limit.
            let custom_exit = (case custom_exit_date d of Some e \<Rightarrow> e | None \<Rightarrow> INF_DATE);
                end_date = min death_date (min child_limit (min custom_exit supp_end))
            in if end_date \<le> start_date then Inr None else Inr (Some (start_date, end_date))))"

definition dep_intervals_of ::
  "(LifeTableType \<Rightarrow> LifeTable option) \<Rightarrow> CalculationInput \<Rightarrow> date
     \<Rightarrow> error + (string \<times> (date \<times> date) option) list" where
  \<comment> \<open>the loop itself; \<^verbatim>\<open>dep_death_dates\<close> and \<^verbatim>\<open>dep_by_name\<close> are never read\<close>
  "dep_intervals_of csv ci supp_end =
     efold (\<lambda>d m. ebind (dep_interval csv ci supp_end d)
                     (\<lambda>iv. Inr (AList.update (name (person d)) iv m)))
       (dependents ci) []"

text \<open>The three labels of the assumed family, as the UTF-8 bytes of the source's literals.\<close>

definition varsayilan :: string where
  "varsayilan = ''Varsay'' @ [CHR 0xC4, CHR 0xB1] @ ''lan ''"

definition virtual_spouse_name :: string where
  "virtual_spouse_name = varsayilan @ ''E'' @ [CHR 0xC5, CHR 0x9F]"

definition virtual_child1_name :: string where
  "virtual_child1_name = varsayilan @ [CHR 0xC3, CHR 0x87] @ ''ocuk 1''"

definition virtual_child2_name :: string where
  "virtual_child2_name = varsayilan @ [CHR 0xC3, CHR 0x87] @ ''ocuk 2''"

definition virtual_child ::
  "CalculationInput \<Rightarrow> date \<Rightarrow> string \<times> date
     \<Rightarrow> (string \<times> date \<times> date) list \<times> (string \<times> date) list
     \<Rightarrow> error + ((string \<times> date \<times> date) list \<times> (string \<times> date) list)" where
  "virtual_child ci supp_end lb acc =
     ebind (add_years (snd lb) (of_int (child_support_age_male ci))) (\<lambda>e.
       let end_date = min e supp_end;
           start_date = max (olay_tarihi ci) (snd lb)
       in if start_date < end_date
          then Inr (AList.update (fst lb) (start_date, end_date) (fst acc), AList.update (fst lb) (snd lb) (snd acc))
          else Inr acc)"

definition virtual_family ::
  "CalculationInput \<Rightarrow> date \<Rightarrow> error + ((string \<times> date \<times> date) list \<times> (string \<times> date) list)" where
  \<comment> \<open>the pair (\<^verbatim>\<open>virtual_intervals\<close>, \<^verbatim>\<open>virtual_children_birth\<close>)\<close>
  "virtual_family ci supp_end =
     (let has_real_spouse = list_ex (\<lambda>d. dep_type d = SPOUSE) (dependents ci)
      in if assume_marriage_if_single ci \<and> \<not> has_real_spouse then
           ebind (add_years (birth (destek ci)) (of_int (assumed_marriage_age ci))) (\<lambda>marriage_date.
             if marriage_date < supp_end then
               let vs_start = max (olay_tarihi ci) marriage_date;
                   vs_end = supp_end;
                   vi = (if vs_start < vs_end then [(virtual_spouse_name, (vs_start, vs_end))] else [])
               in ebind (add_years (birth (destek ci))
                           (of_int (assumed_marriage_age ci + assumed_child1_after_years ci))) (\<lambda>child1_birth.
                  ebind (add_years (birth (destek ci))
                           (of_int (assumed_marriage_age ci + assumed_child2_after_years ci))) (\<lambda>child2_birth.
                    efold (virtual_child ci supp_end)
                      [(virtual_child1_name, child1_birth), (virtual_child2_name, child2_birth)]
                      (vi, [])))
             else Inr ([], []))
         else Inr ([], []))"

subsection \<open>compute_support: one year\<close>

text \<open>The local variables of \<^verbatim>\<open>compute_support\<close> that the loop over the years reads.\<close>

record Frame =
  f_supporter_start :: date
  f_supporter_end :: date
  f_dep_intervals :: "(string \<times> (date \<times> date) option) list"
  f_virtual_intervals :: "(string \<times> date \<times> date) list"
  f_virtual_children_birth :: "(string \<times> date) list"
  f_base :: "(string \<times> real) list"
  f_parents :: "string list"
  f_parent_fraction :: real

definition present_value_of :: "CalculationInput \<Rightarrow> int \<Rightarrow> real \<Rightarrow> real" where
  \<comment> \<open>\<^verbatim>\<open>pv_year\<close>, from \<^verbatim>\<open>gross_support\<close>\<close>
  "present_value_of ci yr gross =
     (let k = yr - year_of (hesap_tarihi ci)
      in if 0 < k then
           let discount_rate =
                 (if use_progresif ci \<and> 0 < report_discount_rate ci
                  then report_discount_rate ci / 100
                  else if \<not> use_progresif ci \<and> 0 < technical_interest ci
                  then technical_interest ci / 100
                  else 0)
           in if 0 < discount_rate
              then gross * (1 / ((1 + discount_rate) ^ nat k))
              else gross
         else gross)"

definition active_days :: "Frame \<Rightarrow> string \<Rightarrow> date \<Rightarrow> date \<Rightarrow> int" where
  \<comment> \<open>\<^verbatim>\<open>dep_intervals.get(name)\<close>, skipped when missing or None, then the overlap with the year\<close>
  "active_days fr nm year_start year_end =
     (case map_of (f_dep_intervals fr) nm of
        Some (Some iv) \<Rightarrow> overlap_days (fst iv) (snd iv) year_start year_end
      | _ \<Rightarrow> 0)"

definition dict_add :: "(string \<times> real) list \<Rightarrow> string \<Rightarrow> real \<Rightarrow> (string \<times> real) list" where
  \<comment> \<open>\<^verbatim>\<open>d[k] = d.get(k, 0.0) + w\<close>\<close>
  "dict_add d k w = AList.update k (dict_get d k 0 + w) d"

definition has_spouse_or_child :: "CalculationInput \<Rightarrow> Frame \<Rightarrow> date \<Rightarrow> date \<Rightarrow> bool" where
  "has_spouse_or_child ci fr year_start year_end =
     (list_ex (\<lambda>d. (dep_type d = SPOUSE \<or> dep_type d = CHILD)
                    \<and> 0 < active_days fr (name (person d)) year_start year_end) (dependents ci)
      \<or> list_ex (\<lambda>v. 0 < overlap_days (fst (snd v)) (snd (snd v)) year_start year_end)
           (f_virtual_intervals fr))"

definition parent_pool ::
  "CalculationInput \<Rightarrow> Frame \<Rightarrow> date \<Rightarrow> date \<Rightarrow> int \<Rightarrow> real \<Rightarrow> (string \<times> real) list \<times> real" where
  \<comment> \<open>step 5.a: the pair (\<^verbatim>\<open>parent_amounts\<close>, \<^verbatim>\<open>parent_total\<close>)\<close>
  "parent_pool ci fr year_start year_end days_in_year pv_year =
     (if separate_parent_pool ci then
        let active_parents =
              filter (\<lambda>p. 0 < active_days fr p year_start year_end) (f_parents fr);
            parent_weights =
              fold (\<lambda>p m. AList.update p
                      (dict_get (f_base fr) p 0
                         * (of_int (active_days fr p year_start year_end) / of_int days_in_year)) m)
                active_parents []
        in if active_parents \<noteq> [] \<and> 0 < f_parent_fraction fr then
             let parent_total = pv_year * f_parent_fraction fr;
                 max_parent_total = pv_year * 0.25;
                 parent_total =
                   (if parent_share_cap_25_enabled ci \<and> has_spouse_or_child ci fr year_start year_end
                       \<and> max_parent_total < parent_total
                    then max_parent_total else parent_total)
             in if length active_parents = 1
                then ([(hd active_parents, parent_total)], parent_total)
                else
                  let s = dict_values_sum parent_weights;
                      wsum = (if s = 0 then 1 else s)
                  in (fold (\<lambda>p m. AList.update p (parent_total * (dict_get parent_weights p 0 / wsum)) m)
                        active_parents [],
                      parent_total)
           else ([], 0)
      else ([], 0))"

definition non_parent_weights ::
  "CalculationInput \<Rightarrow> Frame \<Rightarrow> date \<Rightarrow> date \<Rightarrow> int \<Rightarrow> real \<Rightarrow> (string \<times> real) list" where
  \<comment> \<open>step 5.b up to the call of \<^verbatim>\<open>normalize_shares\<close>\<close>
  "non_parent_weights ci fr year_start year_end days_in_year fraction_supporter =
     (let w0 = [(destek_key, 2 * fraction_supporter)];
          w1 = fold (\<lambda>d m.
                 let nm = name (person d);
                     ddays = active_days fr nm year_start year_end
                 in if ddays \<le> 0 then m
                    else
                      let frac = of_int ddays / of_int days_in_year
                      in if dep_type d = SPOUSE then dict_add m nm (2 * frac)
                         else if dep_type d = CHILD then dict_add m nm (1 * frac)
                         else if \<not> separate_parent_pool ci
                                 \<and> (dep_type d = MOTHER \<or> dep_type d = FATHER)
                         then dict_add m nm ((if reduced_share d then 0.5 else 1) * frac)
                         else m)
                 (dependents ci) w0
      in fold (\<lambda>v m.
            let ddays = overlap_days (fst (snd v)) (snd (snd v)) year_start year_end
            in if ddays \<le> 0 then m
               else
                 let frac = of_int ddays / of_int days_in_year
                 in dict_add m (fst v) ((if fst v = virtual_spouse_name then 2 else 1) * frac))
           (f_virtual_intervals fr) w1)"

definition single_pool_cap ::
  "CalculationInput \<Rightarrow> string list \<Rightarrow> real \<Rightarrow> (string \<times> real) list \<Rightarrow> (string \<times> real) list" where
  \<comment> \<open>step 5.b-2\<close>
  "single_pool_cap ci parents pv_year shares_amount =
     (if \<not> separate_parent_pool ci \<and> parent_share_cap_25_enabled ci then
        let parent_sum = (\<Sum>p \<leftarrow> parents. dict_get shares_amount p 0);
            other_names = filter (\<lambda>n. n \<notin> set parents) (map fst shares_amount);
            others_sum = (\<Sum>n \<leftarrow> other_names. dict_get shares_amount n 0)
        in if 0 < parent_sum \<and> 0 < others_sum then
             let max_parent_total = pv_year * 0.25
             in if max_parent_total + 1 / 10 ^ 9 < parent_sum then
                  let scale_parent = max_parent_total / parent_sum;
                      remaining = pv_year - max_parent_total;
                      scale_others = (if 0 < others_sum then remaining / others_sum else 1);
                      s1 = fold (\<lambda>p m. if p \<in> fst ` set m
                                        then AList.update p (dict_get m p 0 * scale_parent) m else m)
                             parents shares_amount
                  in fold (\<lambda>n m. AList.update n (dict_get m n 0 * scale_others) m) other_names s1
                else shares_amount
           else shares_amount
      else shares_amount)"

definition shares_before_ayim ::
  "CalculationInput \<Rightarrow> Frame \<Rightarrow> date \<Rightarrow> date \<Rightarrow> int \<Rightarrow> real \<Rightarrow> real \<Rightarrow> (string \<times> real) list" where
  \<comment> \<open>steps 5.a and 5.b: \<^verbatim>\<open>shares_amount\<close> when step 5.c begins\<close>
  "shares_before_ayim ci fr year_start year_end days_in_year fraction_supporter pv_year =
     (case parent_pool ci fr year_start year_end days_in_year pv_year of
        (parent_amounts, parent_total) \<Rightarrow>
          let non_parent_total = pv_year - parent_total;
              non_parent_total = (if non_parent_total < 0 then 0 else non_parent_total);
              non_parent_ratios =
                normalize_shares
                  (non_parent_weights ci fr year_start year_end days_in_year fraction_supporter);
              shares_amount = map (\<lambda>kv. (fst kv, non_parent_total * snd kv)) non_parent_ratios;
              shares_amount = single_pool_cap ci (f_parents fr) pv_year shares_amount
          in fold (\<lambda>pa m. dict_add m (fst pa) (snd pa)) parent_amounts shares_amount)"

definition under18_count :: "CalculationInput \<Rightarrow> Frame \<Rightarrow> date \<Rightarrow> date \<Rightarrow> int \<Rightarrow> int" where
  "under18_count ci fr year_start year_end yr =
     (let mid_date = ymd2ord yr 7 1
      in int (length (filter (\<lambda>d. dep_type d = CHILD
                                  \<and> 0 < active_days fr (name (person d)) year_start year_end
                                  \<and> age_of (birth (person d)) mid_date < 18) (dependents ci)))
         + int (length (filter (\<lambda>vb.
                   case map_of (f_virtual_intervals fr) (fst vb) of
                     None \<Rightarrow> False
                   | Some iv \<Rightarrow> 0 < overlap_days (fst iv) (snd iv) year_start year_end
                                 \<and> age_of (snd vb) mid_date < 18)
                 (f_virtual_children_birth fr))))"

definition ayim_step ::
  "CalculationInput \<Rightarrow> Frame \<Rightarrow> date \<Rightarrow> date \<Rightarrow> int \<Rightarrow> (string \<times> real) list \<Rightarrow> (string \<times> real) list" where
  \<comment> \<open>step 5.c; \<^verbatim>\<open>date(year, 7, 1)\<close> cannot raise once \<^verbatim>\<open>date(year, 1, 1)\<close> has been built\<close>
  "ayim_step ci fr year_start year_end yr shares_amount =
     (if apply_ayim ci then
        let under18 = under18_count ci fr year_start year_end yr;
            mid_date = ymd2ord yr 7 1;
            s1 = fold (\<lambda>d m.
                   if dep_type d = SPOUSE \<and> apply_marriage_discount d
                      \<and> 0 < active_days fr (name (person d)) year_start year_end
                   then
                     let spouse_age = age_of (birth (person d)) mid_date;
                         factor = get_marriage_discount_factor (py_int spouse_age)
                                    (gender (person d)) under18
                     in AList.update (name (person d)) (dict_get m (name (person d)) 0 * factor) m
                   else m)
                 (dependents ci) shares_amount
        in case map_of (f_virtual_intervals fr) virtual_spouse_name of
             None \<Rightarrow> s1
           | Some iv \<Rightarrow>
               if 0 < overlap_days (fst iv) (snd iv) year_start year_end then
                 let spouse_age = age_of (birth (destek ci)) mid_date;
                     virt_spouse_gender = (if gender (destek ci) = MALE then FEMALE else MALE);
                     factor = get_marriage_discount_factor (py_int spouse_age) virt_spouse_gender under18
                 in AList.update virtual_spouse_name (dict_get s1 virtual_spouse_name 0 * factor) s1
               else s1
      else shares_amount)"

definition year_row :: "CalculationInput \<Rightarrow> Frame \<Rightarrow> int \<Rightarrow> error + YearRow option" where
  \<comment> \<open>the body of the loop over the years; \<open>None\<close> is \<^verbatim>\<open>continue\<close>\<close>
  "year_row ci fr yr =
     ebind (mk_date yr 1 1) (\<lambda>year_start.
     ebind (mk_date (yr + 1) 1 1) (\<lambda>year_end.
       let days_in_year = year_end - year_start;
           supp_days = overlap_days (f_supporter_start fr) (f_supporter_end fr) year_start year_end
       in if supp_days \<le> 0 then Inr None
          else
            let fraction_supporter = of_int supp_days / of_int days_in_year
            in ebind (yearly_support ci yr) (\<lambda>yearly_full.
                 if yearly_full \<le> 0 then Inr None
                 else
                   let gross = yearly_full * fraction_supporter;
                       pv_year = present_value_of ci yr gross;
                       shares_amount =
                         ayim_step ci fr year_start year_end yr
                           (shares_before_ayim ci fr year_start year_end days_in_year
                              fraction_supporter pv_year)
                   in ebind (mk_date yr (month_of (olay_tarihi ci)) (day_of (olay_tarihi ci))) (\<lambda>ref_date.
                      ebind (period_type_of yr ci) (\<lambda>pt.
                        Inr (Some \<lparr>year = yr,
                                   age_supporter = int_age_on (birth (destek ci)) ref_date,
                                   period_type = pt,
                                   gross_support = gross,
                                   present_value = pv_year,
                                   shares = shares_amount\<rparr>))))))"

fun somes :: "'a option list \<Rightarrow> 'a list" where
  "somes [] = []"
| "somes (None # xs) = somes xs"
| "somes (Some x # xs) = x # somes xs"

subsection \<open>compute_support: totals\<close>

definition last_name_of_type :: "DependentType \<Rightarrow> Dependent list \<Rightarrow> string option" where
  \<comment> \<open>\<^verbatim>\<open>father_name\<close> and \<^verbatim>\<open>mother_name\<close>: the last dependent of the type wins\<close>
  "last_name_of_type t ds =
     fold (\<lambda>d r. if dep_type d = t then Some (name (person d)) else r) ds None"

definition truthy_name :: "string option \<Rightarrow> bool" where
  \<comment> \<open>the truth value of a name that may be None: None and the empty string are false\<close>
  "truthy_name n = (case n of None \<Rightarrow> False | Some s \<Rightarrow> s \<noteq> [])"

definition totals ::
  "CalculationInput \<Rightarrow> Frame \<Rightarrow> YearRow list \<Rightarrow> CalculationResult" where
  \<comment> \<open>step 6 to the return statement\<close>
  "totals ci fr rs =
     (let total_support0 = (\<Sum>r \<leftarrow> rs. present_value r);
          by_person0 = fold (\<lambda>r m. fold (\<lambda>nv m'. dict_add m' (fst nv) (snd nv)) (shares r) m) rs [];
          psd = compute_sgk_psd ci;
          after_sgk =
            (if sgk_deduction_type ci \<noteq> NONE
             then (if sgk_deduction_type ci = HALF then total_support0 - psd * 0.5
                   else total_support0 - psd)
             else total_support0);
          after_sgk = (if after_sgk < 0 then 0 else after_sgk);
          age_at_olay = age_of (birth (destek ci)) (olay_tarihi ci)
      in if training_enabled ci \<and> age_at_olay < 18 then
           let yil_sayisi = 18 - age_at_olay;
               base_monthly =
                 (if 0 < training_base_monthly ci then training_base_monthly ci
                  else get_min_wage_net (olay_tarihi ci) False False False 0);
               father_name = last_name_of_type FATHER (dependents ci);
               mother_name = last_name_of_type MOTHER (dependents ci);
               t_parent = base_monthly * 12 * training_rate ci * yil_sayisi;
               do_father = (father_working ci \<and> truthy_name father_name);
               do_mother = (mother_working ci \<and> truthy_name mother_name);
               training0 = (if do_father then 0 + t_parent else 0);
               by_person1 = (if do_father then dict_add by_person0 (the father_name) (- t_parent)
                             else by_person0);
               training1 = (if do_mother then training0 + t_parent else training0);
               by_person2 = (if do_mother then dict_add by_person1 (the mother_name) (- t_parent)
                             else by_person1)
           in \<lparr>rows = rs,
               total_support = total_support0 - training1,
               total_by_person = by_person2,
               sgk_psd_deduction = psd,
               total_after_sgk = after_sgk - training1,
               total_after_fault = (after_sgk - training1) * (1 - fault_rate ci / 100),
               training_total = training1,
               supporter_start = f_supporter_start fr,
               supporter_end = f_supporter_end fr,
               dependent_intervals = f_dep_intervals fr,
               virtual_intervals = f_virtual_intervals fr\<rparr>
         else
           \<lparr>rows = rs,
            total_support = total_support0,
            total_by_person = by_person0,
            sgk_psd_deduction = psd,
            total_after_sgk = after_sgk,
            total_after_fault = after_sgk * (1 - fault_rate ci / 100),
            training_total = 0,
            supporter_start = f_supporter_start fr,
            supporter_end = f_supporter_end fr,
            dependent_intervals = f_dep_intervals fr,
            virtual_intervals = f_virtual_intervals fr\<rparr>)"

subsection \<open>compute_support\<close>

definition make_frame ::
  "CalculationInput \<Rightarrow> date \<Rightarrow> (string \<times> (date \<times> date) option) list
     \<Rightarrow> (string \<times> date \<times> date) list \<times> (string \<times> date) list \<Rightarrow> Frame" where
  \<comment> \<open>step 4: the base shares and the parents' fraction of them\<close>
  "make_frame ci supporter_end_date dep_ivs virt =
     (let base = base_shares ci;
          parents = parent_names ci;
          total_base = dict_values_sum base;
          parent_base_total = (\<Sum>p \<leftarrow> parents. dict_get base p 0)
      in \<lparr>f_supporter_start = olay_tarihi ci,
          f_supporter_end = supporter_end_date,
          f_dep_intervals = dep_ivs,
          f_virtual_intervals = fst virt,
          f_virtual_children_birth = snd virt,
          f_base = base,
          f_parents = parents,
          f_parent_fraction =
            (if 0 < total_base \<and> 0 < parent_base_total then parent_base_total / total_base else 0)\<rparr>)"

definition compute_frame ::
  "(LifeTableType \<Rightarrow> LifeTable option) \<Rightarrow> CalculationInput \<Rightarrow> error + Frame" where
  \<comment> \<open>steps 1 to 4, after the validation\<close>
  "compute_frame csv ci =
     ebind (expected_death_date csv (birth (destek ci)) (gender (destek ci)) ci) (\<lambda>supporter_end_date.
     ebind (dep_intervals_of csv ci supporter_end_date) (\<lambda>dep_ivs.
     ebind (virtual_family ci supporter_end_date) (\<lambda>virt.
       Inr (make_frame ci supporter_end_date dep_ivs virt))))"

definition compute_support ::
  "(LifeTableType \<Rightarrow> LifeTable option) \<Rightarrow> CalculationInput \<Rightarrow> error + CalculationResult" where
  "compute_support csv ci =
     ebind (validate_input ci) (\<lambda>_.
     ebind (compute_frame csv ci) (\<lambda>fr.
     ebind (emap (year_row ci fr)
              [year_of (f_supporter_start fr) .. year_of (f_supporter_end fr)]) (\<lambda>rs.
       Inr (totals ci fr (somes rs)))))"

subsection \<open>Default field values of the dataclasses\<close>

definition Dependent_default :: "Person \<Rightarrow> DependentType \<Rightarrow> Dependent" where
  "Dependent_default p t =
     \<lparr>person = p, dep_type = t, is_student = False, reduced_share = False,
      apply_marriage_discount = True, has_income = False,
      custom_support_years = None, custom_exit_date = None\<rparr>"

definition CalculationInput_default ::
  "date \<Rightarrow> date \<Rightarrow> Person \<Rightarrow> IncomeMode \<Rightarrow> CalculationInput" where
  "CalculationInput_default olay hesap p mode =
     \<lparr>olay_tarihi = olay, hesap_tarihi = hesap, destek = p, income_mode = mode,
      monthly_income = 0, regular_extra_income = 0,
      life_table = TRH2010,
      active_start_age = 18, active_end_age = 60,
      passive_income_type = PASSIVE_MIN_WAGE, passive_ratio = 0.70,
      child_support_age_male = 18, child_support_age_female_non_student = 22,
      child_support_age_student = 25,
      report_discount_rate = 0,
      use_progresif = True, technical_interest = 1.80,
      separate_parent_pool = True, parent_share_cap_25_enabled = True,
      sgk_monthly_income = 0, sgk_deduction_type = NONE, sgk_psd_factor = 12,
      fault_rate = 0,
      apply_ayim = True,
      training_enabled = False, training_rate = 0.05, training_base_monthly = 0,
      mother_working = True, father_working = True,
      military_enabled = False, military_start_age = 20, military_duration_months = 12,
      assume_marriage_if_single = False, assumed_marriage_age = 25,
      assumed_child1_after_years = 2, assumed_child2_after_years = 4,
      assumed_spouse_has_income = False,
      agi_use_family_status = True,
      profile = EXPERT,
      dependents = []\<rparr>"

definition no_csv :: "LifeTableType \<Rightarrow> LifeTable option" where
  \<comment> \<open>no life-table file exists, as in the source tree: every table is the fallback\<close>
  "no_csv = (\<lambda>_. None)"

section \<open>Definitions that follow the specification's words\<close>

text \<open>
  The present value with the report rate applied as a flat discount, the same single factor
  for every year after the valuation year, and the technical interest compounding.
\<close>

definition spec_present_value :: "CalculationInput \<Rightarrow> int \<Rightarrow> real \<Rightarrow> real" where
  "spec_present_value ci yr gross =
     (let k = yr - year_of (hesap_tarihi ci)
      in if 0 < k then
           (if use_progresif ci
            then gross * (1 / (1 + report_discount_rate ci / 100))
            else gross * (1 / ((1 + technical_interest ci / 100) ^ nat k)))
         else gross)"

text \<open>
  The eligibility interval of a dependent as the specification words it: the start is the
  later of the incident and the birth; the end is the least of the dependent's expected
  death, the supporter's expected death, the child cutoff when there is one and the custom
  exit date when there is one; there is no interval when the end is not after the start.
\<close>

definition spec_dep_interval ::
  "date \<Rightarrow> date \<Rightarrow> date \<Rightarrow> date option \<Rightarrow> date option \<Rightarrow> date \<Rightarrow> (date \<times> date) option" where
  "spec_dep_interval incident b death cutoff custom_exit supp_end =
     (let start_date = max incident b;
          end_date = Min ({death, supp_end} \<union> set_option cutoff \<union> set_option custom_exit)
      in if end_date \<le> start_date then None else Some (start_date, end_date))"

definition child_cutoff :: "CalculationInput \<Rightarrow> Dependent \<Rightarrow> error + date option" where
  \<comment> \<open>for a child the birth date plus the support years, for the others no cutoff\<close>
  "child_cutoff ci d =
     (if dep_type d = CHILD
      then ebind (add_years (birth (person d)) (child_support_years ci d)) (\<lambda>c. Inr (Some c))
      else Inr None)"

section \<open>Concrete inputs\<close>

definition maktul_1985 :: Person where
  "maktul_1985 = \<lparr>name = ''Maktul'', birth = ymd2ord 1985 1 1, gender = MALE\<rparr>"

definition ci_discount :: CalculationInput where
  "ci_discount =
     (CalculationInput_default (ymd2ord 2020 1 1) (ymd2ord 2025 1 1) maktul_1985 MANUAL)
       \<lparr>monthly_income := 4000, report_discount_rate := 10\<rparr>"

definition ci_leap_day :: CalculationInput where
  "ci_leap_day =
     (CalculationInput_default (ymd2ord 2020 2 29) (ymd2ord 2025 1 1) maktul_1985 MANUAL)
       \<lparr>monthly_income := 4000\<rparr>"

definition ci_minor :: CalculationInput where
  "ci_minor =
     (CalculationInput_default (ymd2ord 2020 1 1) (ymd2ord 2025 1 1)
        \<lparr>name = ''Maktul'', birth = ymd2ord 2010 1 1, gender = MALE\<rparr> MANUAL)
       \<lparr>passive_income_type := PASSIVE_RATIO, training_enabled := True,
        training_base_monthly := 1000,
        dependents :=
          [Dependent_default \<lparr>name = ''Baba'', birth = ymd2ord 1980 1 1, gender = MALE\<rparr> FATHER]\<rparr>"

definition maktul_1940 :: Person where
  "maktul_1940 = \<lparr>name = ''Maktul'', birth = ymd2ord 1940 1 1, gender = MALE\<rparr>"

definition ci_widow :: CalculationInput where
  "ci_widow =
     (CalculationInput_default (ymd2ord 2024 1 1) (ymd2ord 2025 1 1) maktul_1940 MANUAL)
       \<lparr>monthly_income := 4000, passive_income_type := PASSIVE_RATIO,
        dependents :=
          [Dependent_default \<lparr>name = ''Ayse'', birth = ymd2ord 1990 1 1, gender = FEMALE\<rparr> SPOUSE]\<rparr>"

definition ci_discount_run :: CalculationInput where
  "ci_discount_run =
     (CalculationInput_default (ymd2ord 2024 1 1) (ymd2ord 2024 1 1)
        \<lparr>name = ''Maktul'', birth = ymd2ord 1940 1 1, gender = FEMALE\<rparr> MANUAL)
       \<lparr>monthly_income := 4000, passive_income_type := PASSIVE_RATIO,
        report_discount_rate := 10\<rparr>"

section \<open>Verification\<close>

subsection \<open>Calendar arithmetic\<close>

lemma div_step:
  fixes z k :: int
  assumes k: "0 < k"
  shows "(z + 1) div k = z div k + (if (z + 1) mod k = 0 then 1 else 0)"
proof -
  define q where "q = (z + 1) div k"
  define r where "r = (z + 1) mod k"
  have z: "z + 1 = k * q + r" by (simp add: q_def r_def)
  have r: "0 \<le> r" "r < k" using k by (simp_all add: r_def)
  show ?thesis
  proof (cases "r = 0")
    case True
    have "z = k * (q - 1) + (k - 1)" using z True by (simp add: algebra_simps)
    then have "z div k = q - 1" using k by (intro int_div_pos_eq[where r = "k - 1"]) simp_all
    then show ?thesis using True by (simp add: q_def[symmetric] r_def[symmetric])
  next
    case False
    have "z = k * q + (r - 1)" using z by simp
    then have "z div k = q" using r False by (intro int_div_pos_eq[where r = "r - 1"]) simp_all
    then show ?thesis using False by (simp add: q_def[symmetric] r_def[symmetric])
  qed
qed

lemma dby_step: "days_before_year (y + 1) = days_before_year y + 365 + (if is_leap y then 1 else 0)"
proof -
  define q4 q100 q400 where "q4 = (y - 1) div 4" and "q100 = (y - 1) div 100" and "q400 = (y - 1) div 400"
  have d: "(4::int) dvd 100" "(100::int) dvd 400" by simp_all
  have a1: "y mod 100 = 0 \<Longrightarrow> y mod 4 = 0"
    unfolding mod_eq_0_iff_dvd using d(1) by (rule dvd_trans)
  have a2: "y mod 400 = 0 \<Longrightarrow> y mod 100 = 0"
    unfolding mod_eq_0_iff_dvd using d(2) by (rule dvd_trans)
  have s4: "y div 4 = q4 + (if y mod 4 = 0 then 1 else 0)"
    using div_step[of 4 "y - 1"] by (simp add: q4_def)
  have s100: "y div 100 = q100 + (if y mod 100 = 0 then 1 else 0)"
    using div_step[of 100 "y - 1"] by (simp add: q100_def)
  have s400: "y div 400 = q400 + (if y mod 400 = 0 then 1 else 0)"
    using div_step[of 400 "y - 1"] by (simp add: q400_def)
  have l: "days_before_year (y + 1) = y * 365 + y div 4 - y div 100 + y div 400"
    by (simp add: days_before_year_def)
  have r: "days_before_year y = (y - 1) * 365 + q4 - q100 + q400"
    by (simp add: days_before_year_def q4_def q100_def q400_def)
  show ?thesis
  proof (cases "y mod 4 = 0")
    case False
    then have "y mod 100 \<noteq> 0 \<and> y mod 400 \<noteq> 0" using a1 a2 by auto
    then show ?thesis using False l r s4 s100 s400 by (simp add: is_leap_def)
  next
    case T4: True
    show ?thesis
    proof (cases "y mod 100 = 0")
      case False
      then have "y mod 400 \<noteq> 0" using a2 by auto
      then show ?thesis using False T4 l r s4 s100 s400 by (simp add: is_leap_def)
    next
      case True
      then show ?thesis using T4 l r s4 s100 s400 by (cases "y mod 400 = 0") (simp_all add: is_leap_def)
    qed
  qed
qed

lemma dby_step_ge: "days_before_year y + 365 \<le> days_before_year (y + 1)"
  by (simp add: dby_step)

lemma dby_mono: "y \<le> y' \<Longrightarrow> days_before_year y \<le> days_before_year y'"
proof (induction y' rule: int_ge_induct)
  case base
  show ?case by simp
next
  case (step i)
  then show ?case using dby_step_ge[of i] by linarith
qed

lemma dby_strict_mono: "y < y' \<Longrightarrow> days_before_year y < days_before_year y'"
  using dby_mono[of "y + 1" y'] dby_step_ge[of y] by linarith

lemma dby_less_imp: "days_before_year y < days_before_year y' \<Longrightarrow> y < y'"
  using dby_mono[of y' y] by (cases "y < y'") auto

lemma dby_decomp:
  assumes "0 \<le> b" "b \<le> 3" "0 \<le> c" "c \<le> 24" "0 \<le> e" "e \<le> 3"
  shows "days_before_year (400 * a + 100 * b + 4 * c + e + 1) = 146097 * a + 36524 * b + 1461 * c + 365 * e"
proof -
  let ?z = "400 * a + 100 * b + 4 * c + e"
  have d4: "?z div 4 = 100 * a + 25 * b + c" using assms by linarith
  have d100: "?z div 100 = 4 * a + b" using assms by linarith
  have d400: "?z div 400 = a" using assms by linarith
  show ?thesis unfolding days_before_year_def using d4 d100 d400 by simp
qed

lemma leap_400: "is_leap (400 * a + 400)"
proof -
  have "(400 * a + 400) mod 400 = 0" by (rule int_mod_pos_eq[where q = "a + 1"]) simp_all
  moreover have "(400 * a + 400) mod 4 = 0" by (rule int_mod_pos_eq[where q = "100 * a + 100"]) simp_all
  ultimately show ?thesis by (simp add: is_leap_def)
qed

lemma leap_4:
  assumes "0 \<le> c" "c \<le> 23"
  shows "is_leap (400 * a + 100 * b + 4 * c + 3 + 1)"
proof -
  have "(400 * a + 100 * b + 4 * c + 3 + 1) mod 100 = 4 * c + 4"
    by (rule int_mod_pos_eq[where q = "4 * a + b"]) (use assms in simp_all)
  moreover have "(400 * a + 100 * b + 4 * c + 3 + 1) mod 4 = 0"
    by (rule int_mod_pos_eq[where q = "100 * a + 25 * b + c + 1"]) simp_all
  ultimately show ?thesis using assms by (simp add: is_leap_def)
qed

lemma year_of_bracket:
  "days_before_year (year_of d) < d \<and> d \<le> days_before_year (year_of d + 1)"
proof -
  define n where "n = d - 1"
  define a where "a = n div 146097"
  define r1 where "r1 = n mod 146097"
  define b where "b = r1 div 36524"
  define r2 where "r2 = r1 mod 36524"
  define c where "c = r2 div 1461"
  define r3 where "r3 = r2 mod 1461"
  define e where "e = r3 div 365"
  define r4 where "r4 = r3 mod 365"
  have n: "n = 146097 * a + r1" and r1: "0 \<le> r1" "r1 < 146097"
    by (simp_all add: a_def r1_def)
  have r1': "r1 = 36524 * b + r2" and r2: "0 \<le> r2" "r2 < 36524"
    by (simp_all add: b_def r2_def)
  have r2': "r2 = 1461 * c + r3" and r3: "0 \<le> r3" "r3 < 1461"
    by (simp_all add: c_def r3_def)
  have r3': "r3 = 365 * e + r4" and r4: "0 \<le> r4" "r4 < 365"
    by (simp_all add: e_def r4_def)
  have b: "0 \<le> b" "b \<le> 4" using r1 r1' r2 by linarith+
  have c: "0 \<le> c" "c \<le> 24" using r2 r2' r3 by linarith+
  have e: "0 \<le> e" "e \<le> 4" using r3 r3' r4 by linarith+
  have yo: "year_of d = (if e = 4 \<or> b = 4 then 400 * a + 100 * b + 4 * c + e else 400 * a + 100 * b + 4 * c + e + 1)"
    unfolding year_of_def Let_def
    by (simp add: n_def[symmetric] a_def[symmetric] r1_def[symmetric] b_def[symmetric]
        r2_def[symmetric] c_def[symmetric] r3_def[symmetric] e_def[symmetric])
  have d: "d = n + 1" by (simp add: n_def)
  show ?thesis
  proof (cases "b = 4")
    case True
    then have r20: "r2 = 0" using r1' r1 r2 by linarith
    then have c0: "c = 0" and e0: "e = 0" by (simp_all add: c_def e_def r3_def)
    have y: "year_of d = 400 * a + 100 * 3 + 4 * 24 + 3 + 1" using yo True c0 e0 by simp
    have "days_before_year (year_of d) = 146097 * a + 36524 * 3 + 1461 * 24 + 365 * 3"
      unfolding y by (rule dby_decomp) simp_all
    moreover have "d = 146097 * a + 146097" using d n r1' True r20 by simp
    moreover have y': "year_of d = 400 * a + 400" using y by simp
    ultimately show ?thesis using dby_step[of "year_of d"] leap_400[of a] by simp
  next
    case False
    then have b3: "b \<le> 3" using b by simp
    show ?thesis
    proof (cases "e = 4")
      case True
      then have r3v: "r3 = 1460" using r3' r3 r4 by linarith
      then have c23: "c \<le> 23" using r2' r2 by linarith
      have y: "year_of d = 400 * a + 100 * b + 4 * c + 3 + 1" using yo True by simp
      have "days_before_year (year_of d) = 146097 * a + 36524 * b + 1461 * c + 365 * 3"
        unfolding y by (rule dby_decomp) (use b b3 c in simp_all)
      moreover have "d = 146097 * a + 36524 * b + 1461 * c + 1461" using d n r1' r2' r3v by simp
      ultimately show ?thesis using dby_step[of "year_of d"] leap_4[OF c(1) c23, of a b] y by simp
    next
      case False
      then have e3: "e \<le> 3" using e by simp
      have y: "year_of d = 400 * a + 100 * b + 4 * c + e + 1" using yo False \<open>b \<noteq> 4\<close> by simp
      have "days_before_year (year_of d) = 146097 * a + 36524 * b + 1461 * c + 365 * e"
        unfolding y by (rule dby_decomp) (use b b3 c e e3 in simp_all)
      moreover have "d = 146097 * a + 36524 * b + 1461 * c + 365 * e + r4 + 1"
        using d n r1' r2' r3' by simp
      ultimately show ?thesis using dby_step_ge[of "year_of d"] r4 by linarith
    qed
  qed
qed

lemma year_of_less: "d \<le> days_before_year y \<Longrightarrow> year_of d < y"
proof -
  assume "d \<le> days_before_year y"
  then have "days_before_year (year_of d) < days_before_year y"
    using year_of_bracket[of d] by linarith
  then show ?thesis by (rule dby_less_imp)
qed

lemma year_of_ge: "days_before_year y < d \<Longrightarrow> y \<le> year_of d"
proof -
  assume "days_before_year y < d"
  then have "days_before_year y < days_before_year (year_of d + 1)"
    using year_of_bracket[of d] by linarith
  then have "y < year_of d + 1" by (rule dby_less_imp)
  then show ?thesis by simp
qed

lemma year_of_mono: "d \<le> d' \<Longrightarrow> year_of d \<le> year_of d'"
proof -
  assume "d \<le> d'"
  then have "days_before_year (year_of d) < d'" using year_of_bracket[of d] by linarith
  then show ?thesis by (rule year_of_ge)
qed

lemma ymd2ord_jan1: "ymd2ord y 1 1 = days_before_year y + 1"
  by (simp add: ymd2ord_def days_before_month_def)

subsection \<open>Call-by-value evaluation\<close>

lemma ebind_weak_cong: "m = m' \<Longrightarrow> ebind m f = ebind m' f"
  by simp

lemma Let_weak_cong: "a = b \<Longrightarrow> Let a t = Let b t"
  by simp

lemma ebind_Inr: "ebind (Inr x) f = f x"
  by (simp add: ebind_def)

lemma ebind_Inl: "ebind (Inl e) f = Inl e"
  by (simp add: ebind_def)

subsection \<open>Doubles\<close>

lemma fl_eval:
  assumes "2 ^ 52 \<le> \<bar>x\<bar> * 2 ^ n" and "\<bar>x\<bar> * 2 ^ n < 2 ^ 53"
  shows "fl x = of_int (py_round (x * 2 ^ n)) / 2 ^ n"
proof -
  have x0: "x \<noteq> 0" using assms(1) by auto
  have p: "(2::real) powr of_int (52 - int n) = 2 ^ 52 / 2 ^ n"
    by (simp add: powr_diff powr_realpow)
  have p1: "(2::real) powr of_int (52 - int n + 1) = 2 ^ 53 / 2 ^ n"
  proof -
    have "(2::real) powr of_int (52 - int n + 1) = 2 powr (53 - real n)" by simp
    also have "\<dots> = 2 ^ 53 / 2 ^ n" by (simp add: powr_diff powr_realpow)
    finally show ?thesis .
  qed
  have lo: "(2::real) powr of_int (52 - int n) \<le> \<bar>x\<bar>"
    unfolding p using assms(1) by (simp add: divide_le_eq)
  have hi: "\<bar>x\<bar> < (2::real) powr of_int (52 - int n + 1)"
    unfolding p1 using assms(2) by (simp add: less_divide_eq)
  have "\<lfloor>log 2 \<bar>x\<bar>\<rfloor> = 52 - int n"
    using floor_log_eq_powr_iff[of "\<bar>x\<bar>" 2 "52 - int n"] x0 lo hi by simp
  then have e: "\<lfloor>log 2 \<bar>x\<bar>\<rfloor> - 52 = - int n" by simp
  have q: "(2::real) powr of_int (- int n) = 1 / 2 ^ n"
    by (simp add: powr_minus_divide powr_realpow)
  show ?thesis
    unfolding fl_def Let_def e q using x0 by simp
qed

lemmas fl_evals =
  fl_eval[where n = 36] fl_eval[where n = 37] fl_eval[where n = 38] fl_eval[where n = 39]
  fl_eval[where n = 40] fl_eval[where n = 41] fl_eval[where n = 42] fl_eval[where n = 43]
  fl_eval[where n = 44] fl_eval[where n = 45] fl_eval[where n = 46] fl_eval[where n = 47]
  fl_eval[where n = 48] fl_eval[where n = 49] fl_eval[where n = 50] fl_eval[where n = 51]
  fl_eval[where n = 52] fl_eval[where n = 53] fl_eval[where n = 54] fl_eval[where n = 55]
  fl_eval[where n = 56] fl_eval[where n = 57] fl_eval[where n = 58] fl_eval[where n = 59]
  fl_eval[where n = 60]

lemmas float_eval = fadd_def fsub_def fmul_def fdiv_def round2_def py_round_def fl_evals

subsection \<open>Minimum wage and family allowance\<close>

lemma dby_2016: "days_before_year 2016 = 735963"
  by (simp add: days_before_year_def)

lemma find_periods_None:
  "dt < 735964 \<Longrightarrow> find (\<lambda>p. wp_start p \<le> dt \<and> dt < wp_end p) MIN_WAGE_PERIODS = None"
  by (simp add: MIN_WAGE_PERIODS_def ymd2ord_def days_before_year_def days_before_month_def is_leap_def)

lemma gross_pre2016: "dt < ymd2ord 2016 1 1 \<Longrightarrow> get_min_wage_gross dt = 26005.50"
  unfolding ymd2ord_jan1 dby_2016 get_min_wage_gross_def
  by (simp add: find_periods_None) (simp add: MIN_WAGE_PERIODS_def fl_eval[where n = 38] py_round_def)

lemma agi_oran_addons:
  "agi_oran m s c = foldl fadd (fl 0.50) (agi_addon_list m s c)"
proof -
  consider "c \<le> 0" | "c = 1" | "c = 2" | "c = 3" | "c = 4" | "5 \<le> c" by linarith
  then show ?thesis
  proof cases
    case 1 then show ?thesis by (simp add: Let_def agi_oran_def agi_addon_list_def)
  next
    case 2 then show ?thesis by (simp add: Let_def agi_oran_def agi_addon_list_def agi_child_tier_def)
  next
    case 3 then show ?thesis by (simp add: Let_def agi_oran_def agi_addon_list_def agi_child_tier_def upt_rec)
  next
    case 4 then show ?thesis by (simp add: Let_def agi_oran_def agi_addon_list_def agi_child_tier_def upt_rec)
  next
    case 5 then show ?thesis by (simp add: Let_def agi_oran_def agi_addon_list_def agi_child_tier_def upt_rec)
  next
    case 6
    then have "min c 5 = 5" by simp
    then show ?thesis using 6 by (simp add: Let_def agi_oran_def agi_addon_list_def agi_child_tier_def upt_rec)
  qed
qed

text \<open>
  Claim C6, as amended. For a date whose year is in 2008 .. 2021 the family allowance is
  computed in double arithmetic as follows: to the worker's own 50 percent the conditional
  add-ons are added one after the other (10 percent for a spouse without income, 7.5
  percent for each of the first two children, 10 percent for the third, 5 percent for each
  of the fourth and fifth); the gross minimum wage is multiplied by that rate and then by
  15 percent, divided by 12 and rounded to two decimals. For every other date it is zero.
\<close>

theorem compute_agi_formula:
  "compute_agi dt married spouse_has_income child_count =
     (if 2008 \<le> year_of dt \<and> year_of dt < 2022
      then round2 (fdiv (fmul (fmul (get_min_wage_gross dt)
                                 (foldl fadd (fl 0.50)
                                    (agi_addon_list married spouse_has_income child_count)))
                           (fl 0.15)) 12)
      else 0)"
  by (auto simp add: compute_agi_def Let_def agi_oran_addons)

text \<open>
  Claim C6 as stated fails: for an unmarried worker without children the add-ons sum to
  zero, yet the allowance on 2020-06-01 is 18.39.
\<close>

theorem compute_agi_not_addons_only:
  "compute_agi (ymd2ord 2020 6 1) False False 0 = fl 18.39
   \<and> spec_agi (ymd2ord 2020 6 1) False False 0 = 0"
  by (simp add: compute_agi_def spec_agi_def agi_addon_list_def agi_oran_def Let_def ymd2ord_def
      days_before_year_def days_before_month_def is_leap_def year_of_def get_min_wage_gross_def
      MIN_WAGE_PERIODS_def float_eval
      cong: Let_weak_cong)

text \<open>
  The allowance of a worker with four children on 2021-06-01: the exact product is the
  decimal tie 35.775, the double that the code computes lies below it, and the result is
  35.77.
\<close>

lemma compute_agi_four_children_2021:
  "compute_agi (ymd2ord 2021 6 1) False False 4 = fl 35.77"
  by (simp add: compute_agi_def agi_oran_def Let_def ymd2ord_def
      days_before_year_def days_before_month_def is_leap_def year_of_def get_min_wage_gross_def
      MIN_WAGE_PERIODS_def float_eval
      cong: Let_weak_cong)

text \<open>
  Claim C10. For every date before 2016-01-01 the gross minimum wage is the wage of the last
  listed period, 26005.50, and the family allowance and the net wage of such a date are
  computed, in double arithmetic, from that wage.
\<close>

theorem pre2016_sentinel_wage:
  assumes "dt < ymd2ord 2016 1 1"
  shows "get_min_wage_gross dt = 26005.50
    \<and> compute_agi dt married spouse_has_income child_count =
          (if year_of dt < 2008 then 0
           else round2 (fdiv (fmul (fmul 26005.50 (agi_oran married spouse_has_income child_count))
                                (fl 0.15)) 12))
    \<and> get_min_wage_net dt use_agi married spouse_has_income child_count =
          round2 (fsub (fsub (fsub (fsub 26005.50 (fmul 26005.50 (fl 0.14)))
                                   (fmul 26005.50 (fl 0.01)))
                             (max 0 (fsub (fmul (fsub (fsub 26005.50 (fmul 26005.50 (fl 0.14)))
                                                      (fmul 26005.50 (fl 0.01)))
                                                (fl 0.15))
                                          (if use_agi
                                           then compute_agi dt married spouse_has_income child_count
                                           else 0))))
                       (fmul 26005.50 (fl 0.00759)))"
proof -
  have g: "get_min_wage_gross dt = 26005.50" using assms by (rule gross_pre2016)
  have "dt \<le> days_before_year 2016" using assms by (simp add: ymd2ord_jan1)
  then have y: "year_of dt < 2016" by (rule year_of_less)
  have a: "compute_agi dt married spouse_has_income child_count =
          (if year_of dt < 2008 then 0
           else round2 (fdiv (fmul (fmul 26005.50 (agi_oran married spouse_has_income child_count))
                                (fl 0.15)) 12))"
    using y by (simp add: compute_agi_def Let_def g)
  have n: "get_min_wage_net dt use_agi married spouse_has_income child_count =
          round2 (fsub (fsub (fsub (fsub 26005.50 (fmul 26005.50 (fl 0.14)))
                                   (fmul 26005.50 (fl 0.01)))
                             (max 0 (fsub (fmul (fsub (fsub 26005.50 (fmul 26005.50 (fl 0.14)))
                                                      (fmul 26005.50 (fl 0.01)))
                                                (fl 0.15))
                                          (if use_agi
                                           then compute_agi dt married spouse_has_income child_count
                                           else 0))))
                       (fmul 26005.50 (fl 0.00759)))"
    using y unfolding get_min_wage_net_def Let_def g by simp
  show ?thesis using g a n by blast
qed

lemma agi_oran_four_children:
  "round2 (fdiv (fmul (fmul 26005.50 (agi_oran False False 4)) (fl 0.15)) 12) = fl 260.05"
  by (simp add: agi_oran_def Let_def float_eval
      cong: Let_weak_cong)

lemma net_four_children:
  "round2 (fsub (fsub (fsub (fsub 26005.50 (fmul 26005.50 (fl 0.14)))
                                   (fmul 26005.50 (fl 0.01)))
                             (max 0 (fsub (fmul (fsub (fsub 26005.50 (fmul 26005.50 (fl 0.14)))
                                                      (fmul 26005.50 (fl 0.01)))
                                                (fl 0.15))
                                          (fl 260.05))))
                       (fmul 26005.50 (fl 0.00759))) = fl 18851.64"
  by (simp add: float_eval
      cong: Let_weak_cong)

theorem pre2016_sentinel_wage_witness:
  "ymd2ord 2010 6 15 < ymd2ord 2016 1 1
   \<and> get_min_wage_gross (ymd2ord 2010 6 15) = 26005.50
   \<and> compute_agi (ymd2ord 2010 6 15) False False 4 = fl 260.05
   \<and> get_min_wage_net (ymd2ord 2010 6 15) True False False 4 = fl 18851.64"
proof -
  have h: "ymd2ord 2010 6 15 < ymd2ord 2016 1 1"
    by (simp add: ymd2ord_def days_before_year_def days_before_month_def is_leap_def)
  have y: "\<not> year_of (ymd2ord 2010 6 15) < 2008"
    by (simp add: ymd2ord_def days_before_year_def days_before_month_def is_leap_def year_of_def)
  show ?thesis
    using h pre2016_sentinel_wage[OF h, of False False 4 True] y
      agi_oran_four_children net_four_children
    by simp
qed

subsection \<open>Evaluation of the model on concrete inputs\<close>

lemma map_of_fallback_aux:
  fixes b :: "int \<Rightarrow> real"
  shows "map_of (concat (map (\<lambda>age. [((MALE, age), b age), ((FEMALE, age), b age + 3)]) ages)) (g, a)
     = (if a \<in> set ages then Some (b a + (if g = FEMALE then 3 else 0)) else None)"
proof (induction ages)
  case Nil
  show ?case by simp
next
  case (Cons x xs)
  then show ?case by (cases g) auto
qed

lemma map_of_fallback:
  "0 \<le> a \<Longrightarrow> a \<le> 110 \<Longrightarrow>
   map_of (fallback_table tt) (g, a)
     = Some ((if tt = TRH2010 then (if a = 0 then 78 else max 0 (78 - of_int a))
              else (if a = 0 then 70 else max 0 (70 - of_int a))) + (if g = FEMALE then 3 else 0))"
proof -
  assume a: "0 \<le> a" "a \<le> 110"
  have "nat a < 111" using a by linarith
  then have "int (nat a) \<in> int ` {0 ..< 111}" by (intro imageI) (simp only: atLeastLessThan_iff, simp)
  then have mem: "a \<in> set (map int [0 ..< 111])"
    using a by (simp only: set_map set_upt int_nat_eq if_True)
  show ?thesis
    unfolding fallback_table_def Let_def map_of_fallback_aux
    using mem by (simp only: if_True)
qed

lemma gle_no_csv:
  "get_life_expectancy no_csv age0 tt g =
     (let a = (if age0 < 0 then 0 else if 110 < age0 then 110 else age0)
      in (if tt = TRH2010 then (if a = 0 then 78 else max 0 (78 - of_int a))
              else (if a = 0 then 70 else max 0 (70 - of_int a))) + (if g = FEMALE then 3 else 0))"
proof -
  define a where "a = (if age0 < 0 then 0 else if 110 < age0 then 110 else age0)"
  have a: "0 \<le> a" "a \<le> 110" by (auto simp: a_def)
  have "get_life_expectancy no_csv age0 tt g = (case map_of (fallback_table tt) (g, a) of Some v \<Rightarrow> v | None \<Rightarrow> 0)"
    unfolding get_life_expectancy_def Let_def load_table_def no_csv_def a_def
    by (auto simp: map_of_fallback split: option.splits)
  then show ?thesis unfolding Let_def a_def[symmetric] using map_of_fallback[OF a] by simp
qed

lemmas date_eval = ymd2ord_def days_before_year_def days_before_month_def is_leap_def year_of_def
  month_of_def day_of_def days_in_month_def mk_date_def date_add_days_def MINORD_def MAXORD_def INF_DATE_def

lemmas model_eval = compute_support_def validate_input_def year_row_def yearly_support_def
  period_type_of_def int_age_on_def overlap_days_def present_value_of_def shares_before_ayim_def
  parent_pool_def non_parent_weights_def normalize_shares_def single_pool_cap_def ayim_step_def
  under18_count_def active_days_def has_spouse_or_child_def dict_add_def dict_get_def
  dict_values_sum_def destek_key_def totals_def compute_sgk_psd_def calculate_monthly_income_def
  get_marriage_discount_factor_def ayim_base_rate_def age_of_def py_int_def py_round_def
  last_name_of_type_def truthy_name_def ebind_Inr ebind_Inl Let_def

lemmas frame_eval = compute_frame_def make_frame_def dep_intervals_of_def dep_interval_def virtual_family_def
      virtual_child_def child_support_years_def base_shares_def parent_names_def expected_death_date_def gle_no_csv add_years_def

lemmas input_eval = CalculationInput_default_def Dependent_default_def

subsection \<open>Discounting\<close>

lemma present_value_of_compounds:
  "present_value_of ci yr gross =
     (let k = yr - year_of (hesap_tarihi ci);
          r = (if use_progresif ci then report_discount_rate ci else technical_interest ci)
      in if 0 < k \<and> 0 < r then gross / (1 + r / 100) ^ nat k else gross)"
  by (simp add: present_value_of_def Let_def)

text \<open>
  Claim C5 as stated fails: under the progressive method with a report rate of 10 percent
  the factor of the second year after the valuation year differs from the factor of the
  first, so the discount is not flat.
\<close>

theorem report_rate_not_flat:
  "present_value_of ci_discount 2026 121 = 110
   \<and> present_value_of ci_discount 2027 121 = 100
   \<and> spec_present_value ci_discount 2027 121 = 110"
  by (simp add: present_value_of_def spec_present_value_def ci_discount_def input_eval date_eval
      power2_eq_square)

subsection \<open>Validation\<close>

lemma validate_input_error_iff:
  "(\<exists>e. validate_input ci = Inl e) \<longleftrightarrow>
     (hesap_tarihi ci < olay_tarihi ci \<or> olay_tarihi ci \<le> birth (destek ci)
      \<or> fault_rate ci < 0 \<or> 100 < fault_rate ci
      \<or> report_discount_rate ci < 0 \<or> technical_interest ci < 0)"
  by (auto simp add: validate_input_def)

lemma compute_support_validation_first:
  "validate_input ci = Inl e \<Longrightarrow> compute_support csv ci = Inl e"
  by (simp add: compute_support_def ebind_Inl)

text \<open>
  Claim C9 at an incident on a leap day. The input passes the validation, and the anniversary
  of the incident in 2021, \<^verbatim>\<open>date(2021, 2, 29)\<close>, raises ValueError inside
  \<^verbatim>\<open>_yearly_support\<close>: no result is produced.
\<close>

theorem leap_day_incident_raises:
  "validate_input ci_leap_day = Inr ()
   \<and> compute_support no_csv ci_leap_day = Inl (ValueError DayOutOfRange)"
  by (simp add: model_eval frame_eval date_eval ci_leap_day_def maktul_1985_def input_eval
       cong: ebind_weak_cong Let_weak_cong)

subsection \<open>Totals\<close>

lemma compute_support_ci_minor:
  "compute_support no_csv (ci_minor\<lparr>fault_rate := f\<rparr>) =
     (if 0 \<le> f \<and> f \<le> 100 then
        Inr \<lparr>rows = [], total_support = - (2338000 / 487),
             total_by_person = [(''Baba'', - (2338000 / 487))],
             sgk_psd_deduction = 0, total_after_sgk = - (2338000 / 487),
             total_after_fault = - (2338000 / 487) * (1 - f / 100),
             training_total = 2338000 / 487, supporter_start = 737425,
             supporter_end = 762262,
             dependent_intervals = [(''Baba'', Some (737425, 751305))],
             virtual_intervals = []\<rparr>
      else Inl (ValueError FaultRateOutOfRange))"
  by (simp add: model_eval frame_eval date_eval ci_minor_def input_eval
       cong: ebind_weak_cong Let_weak_cong)

text \<open>
  Claim C3 at a supporter who was nine at the incident, without income, whose working
  father is charged the training cost. The cost is subtracted after the floor at zero, and
  the three totals are negative.
\<close>

theorem training_cost_makes_totals_negative:
  "(case compute_support no_csv (ci_minor\<lparr>fault_rate := 0\<rparr>) of
      Inl e \<Rightarrow> False
    | Inr res \<Rightarrow> total_support res < 0 \<and> total_after_sgk res < 0 \<and> total_after_fault res < 0)"
  by (simp add: compute_support_ci_minor)

text \<open>
  Claim C8 at the same input. With a negative total after the deductions, raising the
  fault rate from 0 to 50 raises the total after fault.
\<close>

theorem fault_rate_raises_negative_total:
  "(case (compute_support no_csv (ci_minor\<lparr>fault_rate := 0\<rparr>),
          compute_support no_csv (ci_minor\<lparr>fault_rate := 50\<rparr>)) of
      (Inr res0, Inr res50) \<Rightarrow> total_after_fault res0 < total_after_fault res50
    | _ \<Rightarrow> False)"
  by (simp add: compute_support_ci_minor)

subsection \<open>Structure of a successful run\<close>

lemma ebind_eq_Inr: "ebind m f = Inr y \<longleftrightarrow> (\<exists>x. m = Inr x \<and> f x = Inr y)"
  by (cases m) (simp_all add: ebind_def)

lemma compute_support_InrE:
  assumes "compute_support csv ci = Inr res"
  obtains fr rs where "validate_input ci = Inr ()" "compute_frame csv ci = Inr fr"
    "emap (year_row ci fr) [year_of (f_supporter_start fr) .. year_of (f_supporter_end fr)] = Inr rs"
    "res = totals ci fr (somes rs)"
  using assms unfolding compute_support_def ebind_eq_Inr by auto

lemma totals_fields:
  "rows (totals ci fr rs) = rs"
  "supporter_start (totals ci fr rs) = f_supporter_start fr"
  "supporter_end (totals ci fr rs) = f_supporter_end fr"
  "dependent_intervals (totals ci fr rs) = f_dep_intervals fr"
  "virtual_intervals (totals ci fr rs) = f_virtual_intervals fr"
  by (simp_all add: totals_def Let_def)

lemma emap_Inr_Cons:
  "emap f (x # xs) = Inr rs \<longleftrightarrow> (\<exists>r rs'. f x = Inr r \<and> emap f xs = Inr rs' \<and> rs = r # rs')"
  by (auto simp add: ebind_eq_Inr)

lemma mk_date_Inr: "mk_date y m d = Inr x \<Longrightarrow> x = ymd2ord y m d \<and> 1 \<le> y \<and> y \<le> 9999"
  by (auto simp add: mk_date_def split: if_splits)

lemma year_row_Inr:
  fixes ci fr y
  defines "ys \<equiv> ymd2ord y 1 1" and "ye \<equiv> ymd2ord (y + 1) 1 1"
  defines "sd \<equiv> overlap_days (f_supporter_start fr) (f_supporter_end fr) ys ye"
  defines "fs \<equiv> real_of_int sd / real_of_int (ye - ys)"
  assumes "year_row ci fr y = Inr ro"
  shows "if sd \<le> 0 then ro = None
         else (\<exists>v. yearly_support ci y = Inr v
                \<and> (if v \<le> 0 then ro = None
                    else (\<exists>a pt. ro = Some \<lparr>year = y, age_supporter = a, period_type = pt,
                            gross_support = v * fs,
                            present_value = present_value_of ci y (v * fs),
                            shares = ayim_step ci fr ys ye y
                                       (shares_before_ayim ci fr ys ye (ye - ys) fs
                                          (present_value_of ci y (v * fs)))\<rparr>)))"
proof -
  from assms(5) obtain ys0 ye0 where ys0: "mk_date y 1 1 = Inr ys0" and ye0: "mk_date (y + 1) 1 1 = Inr ye0"
    unfolding year_row_def ebind_eq_Inr by blast
  have e: "mk_date y 1 1 = Inr ys" "mk_date (y + 1) 1 1 = Inr ye"
    using mk_date_Inr[OF ys0] mk_date_Inr[OF ye0] ys0 ye0 by (simp_all add: ys_def ye_def)
  have eq: "year_row ci fr y =
      (if sd \<le> 0 then Inr None
       else ebind (yearly_support ci y) (\<lambda>v.
              if v \<le> 0 then Inr None
              else ebind (mk_date y (month_of (olay_tarihi ci)) (day_of (olay_tarihi ci))) (\<lambda>ref_date.
                   ebind (period_type_of y ci) (\<lambda>pt.
                     Inr (Some \<lparr>year = y,
                                age_supporter = int_age_on (birth (destek ci)) ref_date,
                                period_type = pt,
                                gross_support = v * fs,
                                present_value = present_value_of ci y (v * fs),
                                shares = ayim_step ci fr ys ye y
                                       (shares_before_ayim ci fr ys ye (ye - ys) fs
                                          (present_value_of ci y (v * fs)))\<rparr>)))))"
    unfolding year_row_def e ebind_Inr Let_def sd_def fs_def by simp
  have k: "(if sd \<le> 0 then Inr None
       else ebind (yearly_support ci y) (\<lambda>v.
              if v \<le> 0 then Inr None
              else ebind (mk_date y (month_of (olay_tarihi ci)) (day_of (olay_tarihi ci))) (\<lambda>ref_date.
                   ebind (period_type_of y ci) (\<lambda>pt.
                     Inr (Some \<lparr>year = y,
                                age_supporter = int_age_on (birth (destek ci)) ref_date,
                                period_type = pt,
                                gross_support = v * fs,
                                present_value = present_value_of ci y (v * fs),
                                shares = ayim_step ci fr ys ye y
                                       (shares_before_ayim ci fr ys ye (ye - ys) fs
                                          (present_value_of ci y (v * fs)))\<rparr>))))) = Inr ro"
    using assms(5) unfolding eq .
  show ?thesis
  proof (cases "sd \<le> 0")
    case True
    then show ?thesis using k by simp
  next
    case False
    from k[unfolded if_not_P[OF False] ebind_eq_Inr] obtain v where v: "yearly_support ci y = Inr v"
      and r: "(if v \<le> 0 then Inr None
              else ebind (mk_date y (month_of (olay_tarihi ci)) (day_of (olay_tarihi ci))) (\<lambda>ref_date.
                   ebind (period_type_of y ci) (\<lambda>pt.
                     Inr (Some \<lparr>year = y,
                                age_supporter = int_age_on (birth (destek ci)) ref_date,
                                period_type = pt,
                                gross_support = v * fs,
                                present_value = present_value_of ci y (v * fs),
                                shares = ayim_step ci fr ys ye y
                                       (shares_before_ayim ci fr ys ye (ye - ys) fs
                                          (present_value_of ci y (v * fs)))\<rparr>)))) = Inr ro"
      by blast
    show ?thesis
    proof (cases "v \<le> 0")
      case True
      then show ?thesis using False v r by auto
    next
      case v0: False
      from r[unfolded if_not_P[OF v0] ebind_eq_Inr] obtain ref_date pt where
        "Inr (Some \<lparr>year = y,
                                age_supporter = int_age_on (birth (destek ci)) ref_date,
                                period_type = pt,
                                gross_support = v * fs,
                                present_value = present_value_of ci y (v * fs),
                                shares = ayim_step ci fr ys ye y
                                       (shares_before_ayim ci fr ys ye (ye - ys) fs
                                          (present_value_of ci y (v * fs)))\<rparr>) = (Inr ro :: error + YearRow option)"
        by blast
      then show ?thesis using False v v0 by auto
    qed
  qed
qed

lemma year_row_Inr_year:
  assumes "year_row ci fr y = Inr ro"
  shows "(ro \<noteq> None) =
           (0 < overlap_days (f_supporter_start fr) (f_supporter_end fr) (ymd2ord y 1 1) (ymd2ord (y + 1) 1 1)
            \<and> (case yearly_support ci y of Inr v \<Rightarrow> 0 < v | Inl e \<Rightarrow> False))"
    and "\<And>r. ro = Some r \<Longrightarrow> year r = y"
  using year_row_Inr[OF assms] by (auto split: if_splits)

lemma emap_year_row_years:
  "emap (year_row ci fr) ys = Inr rs \<Longrightarrow>
   map year (somes rs) =
     filter (\<lambda>y. 0 < overlap_days (f_supporter_start fr) (f_supporter_end fr) (ymd2ord y 1 1) (ymd2ord (y + 1) 1 1)
                 \<and> (case yearly_support ci y of Inr v \<Rightarrow> 0 < v | Inl e \<Rightarrow> False)) ys"
proof (induction ys arbitrary: rs)
  case Nil
  then show ?case by simp
next
  case (Cons y ys)
  then obtain r rs' where r: "year_row ci fr y = Inr r" and e: "emap (year_row ci fr) ys = Inr rs'"
    and rs: "rs = r # rs'"
    unfolding emap_Inr_Cons by blast
  show ?case
    using Cons.IH[OF e] year_row_Inr_year[OF r] unfolding rs
    by (cases r) auto
qed

lemma overlap_outside_years:
  assumes "y < year_of s \<or> year_of e < y"
  shows "overlap_days s e (ymd2ord y 1 1) (ymd2ord (y + 1) 1 1) = 0"
proof -
  from assms show ?thesis
  proof
    assume "y < year_of s"
    then have "days_before_year (y + 1) \<le> days_before_year (year_of s)"
      by (intro dby_mono) simp
    then have "ymd2ord (y + 1) 1 1 \<le> s"
      using year_of_bracket[of s] by (simp add: ymd2ord_jan1)
    then show ?thesis by (auto simp add: overlap_days_def Let_def min_def max_def)
  next
    assume "year_of e < y"
    then have "days_before_year (year_of e + 1) \<le> days_before_year y"
      by (intro dby_mono) simp
    then have "e \<le> ymd2ord y 1 1"
      using year_of_bracket[of e] by (simp add: ymd2ord_jan1)
    then show ?thesis by (auto simp add: overlap_days_def Let_def min_def max_def)
  qed
qed

text \<open>
  Claim C7, as amended. A successful run emits exactly one row for every calendar year in
  which the supporter's interval overlaps the year by at least one day and the yearly
  support of that year is positive, and no row for any other year; a year whose yearly
  support is zero or negative is skipped.
\<close>

theorem rows_one_per_supported_year:
  assumes "compute_support csv ci = Inr res"
  shows "distinct (map year (rows res))
    \<and> (\<forall>y. y \<in> year ` set (rows res) \<longleftrightarrow>
          0 < overlap_days (supporter_start res) (supporter_end res) (ymd2ord y 1 1) (ymd2ord (y + 1) 1 1)
          \<and> (case yearly_support ci y of Inr v \<Rightarrow> 0 < v | Inl e \<Rightarrow> False))"
proof -
  from assms obtain fr rs where
    em: "emap (year_row ci fr) [year_of (f_supporter_start fr) .. year_of (f_supporter_end fr)] = Inr rs"
    and res: "res = totals ci fr (somes rs)"
    by (rule compute_support_InrE)
  let ?P = "\<lambda>y. 0 < overlap_days (f_supporter_start fr) (f_supporter_end fr) (ymd2ord y 1 1) (ymd2ord (y + 1) 1 1)
                 \<and> (case yearly_support ci y of Inr v \<Rightarrow> 0 < v | Inl e \<Rightarrow> False)"
  have yrs: "map year (rows res) = filter ?P [year_of (f_supporter_start fr) .. year_of (f_supporter_end fr)]"
    unfolding res totals_fields by (rule emap_year_row_years[OF em])
  have d: "distinct (map year (rows res))" unfolding yrs by simp
  have "y \<in> year ` set (rows res) \<longleftrightarrow> ?P y" for y
  proof -
    have "y \<in> year ` set (rows res) \<longleftrightarrow> y \<in> set (map year (rows res))" by simp
    also have "\<dots> \<longleftrightarrow> year_of (f_supporter_start fr) \<le> y \<and> y \<le> year_of (f_supporter_end fr) \<and> ?P y"
      unfolding yrs by auto
    also have "\<dots> \<longleftrightarrow> ?P y"
    proof -
      have "year_of (f_supporter_start fr) \<le> y \<and> y \<le> year_of (f_supporter_end fr)" if "?P y"
      proof (rule ccontr)
        assume "\<not> ?thesis"
        then have "y < year_of (f_supporter_start fr) \<or> year_of (f_supporter_end fr) < y" by linarith
        from overlap_outside_years[OF this] that show False by simp
      qed
      then show ?thesis by blast
    qed
    finally show ?thesis .
  qed
  then show ?thesis using d unfolding res totals_fields by blast
qed

lemma compute_support_ci_widow:
  "compute_support no_csv (ci_widow\<lparr>apply_ayim := a\<rparr>) =
     Inr \<lparr>rows =
        [\<lparr>year = 2024, age_supporter = 84, period_type = Gecmis,
            gross_support = 33600, present_value = 33600,
            shares = [(''destek'', 16800), (''Ayse'', if a then 13944 else 16800)]\<rparr>],
        total_support = 33600,
        total_by_person = [(''destek'', 16800), (''Ayse'', if a then 13944 else 16800)],
        sgk_psd_deduction = 0, total_after_sgk = 33600,
        total_after_fault = 33600, training_total = 0,
        supporter_start = 738886, supporter_end = 739252,
        dependent_intervals = [(''Ayse'', Some (738886, 739252))],
        virtual_intervals = []\<rparr>"
  by (cases a) (simp_all add: model_eval frame_eval date_eval ci_widow_def maktul_1940_def input_eval
       cong: ebind_weak_cong Let_weak_cong)

theorem rows_one_per_supported_year_witness:
  "compute_support no_csv (ci_widow\<lparr>apply_ayim := True\<rparr>) =
     Inr \<lparr>rows =
        [\<lparr>year = 2024, age_supporter = 84, period_type = Gecmis,
            gross_support = 33600, present_value = 33600,
            shares = [(''destek'', 16800), (''Ayse'', 13944)]\<rparr>],
        total_support = 33600,
        total_by_person = [(''destek'', 16800), (''Ayse'', 13944)],
        sgk_psd_deduction = 0, total_after_sgk = 33600,
        total_after_fault = 33600, training_total = 0,
        supporter_start = 738886, supporter_end = 739252,
        dependent_intervals = [(''Ayse'', Some (738886, 739252))],
        virtual_intervals = []\<rparr>
   \<and> (0 < overlap_days 738886 739252 (ymd2ord 2024 1 1) (ymd2ord 2025 1 1)
        \<and> (case yearly_support (ci_widow\<lparr>apply_ayim := True\<rparr>) 2024 of Inr v \<Rightarrow> 0 < v | Inl e \<Rightarrow> False))"
proof -
  have e: "compute_support no_csv (ci_widow\<lparr>apply_ayim := True\<rparr>) =
     Inr \<lparr>rows =
        [\<lparr>year = 2024, age_supporter = 84, period_type = Gecmis,
            gross_support = 33600, present_value = 33600,
            shares = [(''destek'', 16800), (''Ayse'', 13944)]\<rparr>],
        total_support = 33600,
        total_by_person = [(''destek'', 16800), (''Ayse'', 13944)],
        sgk_psd_deduction = 0, total_after_sgk = 33600,
        total_after_fault = 33600, training_total = 0,
        supporter_start = 738886, supporter_end = 739252,
        dependent_intervals = [(''Ayse'', Some (738886, 739252))],
        virtual_intervals = []\<rparr>"
    by (simp add: compute_support_ci_widow)
  have "2024 + 1 = (2025::int)" by simp
  then show ?thesis
    using rows_one_per_supported_year[OF e, THEN conjunct2, THEN spec, of 2024] e
    by simp
qed

text \<open>
  Claim C7 as stated fails: the supporter of this input is present during the whole of
  2020, the yearly support of 2020 is zero (he is below the active age), and no row is
  emitted at all.
\<close>

theorem zero_support_years_have_no_row:
  "(case compute_support no_csv (ci_minor\<lparr>fault_rate := 0\<rparr>) of
      Inl e \<Rightarrow> False
    | Inr res \<Rightarrow>
        rows res = []
        \<and> 0 < overlap_days (supporter_start res) (supporter_end res) (ymd2ord 2020 1 1) (ymd2ord 2021 1 1)
        \<and> yearly_support (ci_minor\<lparr>fault_rate := 0\<rparr>) 2020 = Inr 0)"
  by (simp add: compute_support_ci_minor)
     (simp add: model_eval date_eval ci_minor_def input_eval cong: ebind_weak_cong Let_weak_cong)

subsection \<open>Discounting in a run\<close>

lemma emap_somes_member:
  "emap f xs = Inr rs \<Longrightarrow> r \<in> set (somes rs) \<Longrightarrow> \<exists>x \<in> set xs. f x = Inr (Some r)"
proof (induction xs arbitrary: rs)
  case Nil
  then show ?case by simp
next
  case (Cons x xs)
  from Cons.prems(1) obtain ro rs' where ro: "f x = Inr ro" and e: "emap f xs = Inr rs'"
    and rs: "rs = ro # rs'"
    unfolding emap_Inr_Cons by blast
  show ?case
  proof (cases ro)
    case None
    then show ?thesis using Cons.IH[OF e] Cons.prems(2) rs by simp
  next
    case (Some a)
    then show ?thesis using Cons.IH[OF e] Cons.prems(2) rs ro by auto
  qed
qed

lemma year_row_Some_present_value:
  assumes "year_row ci fr y = Inr (Some r)"
  shows "year r = y \<and> present_value r = present_value_of ci y (gross_support r)"
  using year_row_Inr[OF assms] by (auto split: if_splits)

lemma compute_support_row:
  assumes "compute_support csv ci = Inr res" and "r \<in> set (rows res)"
  obtains fr where "compute_frame csv ci = Inr fr" "year_row ci fr (year r) = Inr (Some r)"
proof -
  from assms(1) obtain fr rs where fr: "compute_frame csv ci = Inr fr"
    and em: "emap (year_row ci fr) [year_of (f_supporter_start fr) .. year_of (f_supporter_end fr)] = Inr rs"
    and res: "res = totals ci fr (somes rs)"
    by (rule compute_support_InrE)
  from assms(2) have "r \<in> set (somes rs)" unfolding res totals_fields .
  from emap_somes_member[OF em this] obtain y where y: "year_row ci fr y = Inr (Some r)" by blast
  from year_row_Inr_year(2)[OF y] have "year r = y" by simp
  with y fr that show ?thesis by blast
qed

text \<open>
  Claim C5, as amended. In every row of a successful run the present value is the gross
  support of the row, discounted only when the row's year is after the valuation year and
  the selected rate is positive; the selected rate is the report discount rate under the
  progressive method and the technical interest otherwise, and in both cases the discount
  compounds: the factor is 1 / (1 + r / 100) ^ k for the k-th year after the valuation year.
\<close>

theorem row_present_value_compounds:
  assumes "compute_support csv ci = Inr res" and "r \<in> set (rows res)"
  shows "present_value r =
     (let k = year r - year_of (hesap_tarihi ci);
          rate = (if use_progresif ci then report_discount_rate ci else technical_interest ci)
      in if 0 < k \<and> 0 < rate then gross_support r / (1 + rate / 100) ^ nat k
         else gross_support r)"
proof -
  from assms obtain fr where y: "year_row ci fr (year r) = Inr (Some r)"
    by (rule compute_support_row)
  from year_row_Some_present_value[OF y]
  have "present_value r = present_value_of ci (year r) (gross_support r)" by simp
  then show ?thesis by (simp add: present_value_of_compounds)
qed

lemma compute_support_ci_discount_run:
  "compute_support no_csv ci_discount_run =
     Inr \<lparr>rows =
        [\<lparr>year = 2024, age_supporter = 84, period_type = GelecekPasif,
            gross_support = 33600, present_value = 33600,
            shares = [(''destek'', 33600)]\<rparr>,
         \<lparr>year = 2025, age_supporter = 85, period_type = GelecekPasif,
            gross_support = 33600, present_value = 336000 / 11,
            shares = [(''destek'', 336000 / 11)]\<rparr>,
         \<lparr>year = 2026, age_supporter = 86, period_type = GelecekPasif,
            gross_support = 33600, present_value = 3360000 / 121,
            shares = [(''destek'', 3360000 / 121)]\<rparr>],
        total_support = 11121600 / 121,
        total_by_person = [(''destek'', 11121600 / 121)],
        sgk_psd_deduction = 0, total_after_sgk = 11121600 / 121,
        total_after_fault = 11121600 / 121, training_total = 0,
        supporter_start = 738886, supporter_end = 739982,
        dependent_intervals = [], virtual_intervals = []\<rparr>"
  by (simp add: model_eval frame_eval date_eval ci_discount_run_def input_eval
       power_divide power2_eq_square cong: ebind_weak_cong Let_weak_cong)

theorem row_present_value_compounds_witness:
  "(case compute_support no_csv ci_discount_run of
      Inl e \<Rightarrow> False
    | Inr res \<Rightarrow>
        map (\<lambda>r. (year r, gross_support r, present_value r)) (rows res)
          = [(2024, 33600, 33600), (2025, 33600, 33600 / (1 + 10 / 100) ^ 1),
             (2026, 33600, 33600 / (1 + 10 / 100) ^ 2)])"
proof -
  let ?r = "\<lparr>year = 2026, age_supporter = 86, period_type = GelecekPasif,
            gross_support = 33600, present_value = 3360000 / 121,
            shares = [(''destek'', 3360000 / 121)]\<rparr>"
  have m: "?r \<in> set (rows (projr (compute_support no_csv ci_discount_run)))"
    by (simp add: compute_support_ci_discount_run)
  have e: "compute_support no_csv ci_discount_run = Inr (projr (compute_support no_csv ci_discount_run))"
    by (simp add: compute_support_ci_discount_run)
  from row_present_value_compounds[OF e m] show ?thesis
    by (simp add: compute_support_ci_discount_run power2_eq_square)
qed

end
